theory Spec2Isabelle
  imports Complex_Main "HOL-Library.Sublist"
begin

section \<open>JavaScript values and the platform\<close>

text \<open>
  The backend is JavaScript running on Node. A value received from a query string or
  passed to a validator is one of the following; \<open>JNum\<close> carries a finite number,
  \<open>JFun\<close> stands for any function object. Strings are lists of characters.
\<close>

datatype jsval =
    JUndefined
  | JNull
  | JBool bool
  | JNum real
  | JNaN
  | JStr string
  | JArr "jsval list"
  | JObj "(string \<times> jsval) list"
  | JFun

text \<open>\<open>!v\<close> in the source: the falsy values are undefined, null, false, 0, NaN and ''.\<close>

fun falsy :: "jsval \<Rightarrow> bool" where
  "falsy JUndefined = True"
| "falsy JNull = True"
| "falsy (JBool b) = (\<not> b)"
| "falsy (JNum r) = (r = 0)"
| "falsy JNaN = True"
| "falsy (JStr s) = (s = [])"
| "falsy (JArr xs) = False"
| "falsy (JObj ps) = False"
| "falsy JFun = False"

text \<open>
  The string carried by a string value. The source applies string operations to a
  value only after a \<open>typeof v === 'string'\<close> test or after \<open>validateDate\<close> has
  accepted it, so the other cases are never read.
\<close>

fun the_string :: "jsval \<Rightarrow> string" where
  "the_string (JStr s) = s"
| "the_string v = []"

datatype exn = TypeError

text \<open>
  What the code takes from the runtime and the process environment: the clock
  (milliseconds since the epoch), the offset of local time from UTC in milliseconds
  (the \<open>Date\<close> getters \<open>getFullYear\<close>, \<open>getMonth\<close> and \<open>getDate\<close> read local
  time), \<open>process.env.NODE_ENV\<close>, \<open>parseInt(process.env.CACHE_TTL_SECONDS)\<close>,
  \<open>new Date(s)\<close> on strings that are not of the form YYYY-MM-DD, \<open>parseInt\<close>,
  \<open>parseFloat\<close>, \<open>JSON.stringify\<close> on a parameter object, the host name that
  \<open>new URL(u).hostname\<close> yields (\<open>None\<close> where the constructor throws),
  \<open>Buffer.from(u).toString('base64')\<close>, the frames that follow the first line of an
  error's stack, and \<open>process.env.NASA_API_KEY\<close>. \<open>None\<close> stands for NaN where a
  number is expected.
\<close>

record platform =
  now :: int
  tz_offset :: "int \<Rightarrow> int"
  NODE_ENV :: "string option"
  CACHE_TTL_SECONDS :: "int option"
  Date_parse :: "string \<Rightarrow> int option"
  parseInt :: "jsval \<Rightarrow> int option"
  parseFloat :: "string \<Rightarrow> real option"
  JSON_stringify :: "(string \<times> jsval) list \<Rightarrow> string"
  URL_hostname :: "jsval \<Rightarrow> string option"
  base64 :: "jsval \<Rightarrow> string"
  stack_frames :: string
  NASA_API_KEY :: "string option"

subsection \<open>Strings\<close>

definition upper_chars :: string where
  "upper_chars = ''ABCDEFGHIJKLMNOPQRSTUVWXYZ''"

definition lower_chars :: string where
  "lower_chars = ''abcdefghijklmnopqrstuvwxyz''"

definition lower_char :: "char \<Rightarrow> char" where
  "lower_char c = (case map_of (zip upper_chars lower_chars) c of Some l \<Rightarrow> l | None \<Rightarrow> c)"

definition upper_char :: "char \<Rightarrow> char" where
  "upper_char c = (case map_of (zip lower_chars upper_chars) c of Some u \<Rightarrow> u | None \<Rightarrow> c)"

definition toLowerCase :: "string \<Rightarrow> string" where
  "toLowerCase s = map lower_char s"

definition toUpperCase :: "string \<Rightarrow> string" where
  "toUpperCase s = map upper_char s"

text \<open>\<open>s.includes(d)\<close>: \<open>d\<close> occurs in \<open>s\<close> as a contiguous run of characters.\<close>

fun str_includes :: "string \<Rightarrow> string \<Rightarrow> bool" where
  "str_includes [] d = (d = [])"
| "str_includes (c # cs) d = (prefix d (c # cs) \<or> str_includes cs d)"

definition endsWith :: "string \<Rightarrow> string \<Rightarrow> bool" where
  "endsWith s d = suffix d s"

definition is_digit :: "char \<Rightarrow> bool" where
  "is_digit c = (c \<in> set ''0123456789'')"

definition digit_value :: "char \<Rightarrow> int" where
  "digit_value c = (case map_of (zip ''0123456789'' [0, 1, 2, 3, 4, 5, 6, 7, 8, 9]) c of
                      Some v \<Rightarrow> v | None \<Rightarrow> 0)"

text \<open>\<open>Number(s)\<close> on a string of decimal digits.\<close>

definition Number_digits :: "string \<Rightarrow> int" where
  "Number_digits s = foldl (\<lambda>a c. 10 * a + digit_value c) 0 s"

definition digit_char :: "nat \<Rightarrow> char" where
  "digit_char n = ''0123456789'' ! (n mod 10)"

fun show_nat :: "nat \<Rightarrow> string" where
  "show_nat n = (if n < 10 then [digit_char n] else show_nat (n div 10) @ [digit_char n])"

declare show_nat.simps [simp del]

text \<open>A template literal \<open>${n}\<close> on an integer.\<close>

definition show_int :: "int \<Rightarrow> string" where
  "show_int i = (if i < 0 then CHR ''-'' # show_nat (nat (- i)) else show_nat (nat i))"

subsection \<open>Dates\<close>

definition msPerDay :: int where
  "msPerDay = 86400000"

text \<open>
  The day number (days since 1970-01-01) of a date of the proleptic Gregorian calendar
  and back, as the runtime's \<open>MakeDay\<close> and its \<open>YearFromTime\<close>, \<open>MonthFromTime\<close>,
  \<open>DateFromTime\<close> compute them. Months count from 1 here.
\<close>

definition days_from_civil :: "int \<Rightarrow> int \<Rightarrow> int \<Rightarrow> int" where
  "days_from_civil y m d =
     (let y' = (if m \<le> 2 then y - 1 else y);
          era = y' div 400;
          yoe = y' - era * 400;
          mp = (if m > 2 then m - 3 else m + 9);
          doy = (153 * mp + 2) div 5 + d - 1;
          doe = yoe * 365 + yoe div 4 - yoe div 100 + doy
      in era * 146097 + doe - 719468)"

definition civil_from_days :: "int \<Rightarrow> int \<times> int \<times> int" where
  "civil_from_days z =
     (let z' = z + 719468;
          era = z' div 146097;
          doe = z' - era * 146097;
          yoe = (doe - doe div 1460 + doe div 36524 - doe div 146096) div 365;
          doy = doe - (365 * yoe + yoe div 4 - yoe div 100);
          mp = (5 * doy + 2) div 153;
          d = doy - (153 * mp + 2) div 5 + 1;
          m = (if mp < 10 then mp + 3 else mp - 9);
          y = yoe + era * 400
      in (if m \<le> 2 then y + 1 else y, m, d))"

text \<open>The regular expression \<open>/^\d{4}-\d{2}-\d{2}$/\<close>.\<close>

definition dateRegex :: "string \<Rightarrow> bool" where
  "dateRegex s =
     (length s = 10 \<and> list_all is_digit (take 4 s) \<and> s ! 4 = CHR ''-'' \<and>
      list_all is_digit (take 2 (drop 5 s)) \<and> s ! 7 = CHR ''-'' \<and>
      list_all is_digit (drop 8 s))"

text \<open>
  \<open>dateString.split('-').map(Number)\<close> on a string that matches the expression: its
  three runs of digits.
\<close>

definition split_numbers :: "string \<Rightarrow> int \<times> int \<times> int" where
  "split_numbers s =
     (Number_digits (take 4 s), Number_digits (take 2 (drop 5 s)), Number_digits (drop 8 s))"

text \<open>
  \<open>new Date(s)\<close> as a time value in milliseconds, \<open>None\<close> for an invalid date (whose
  time value is NaN). A date-only string YYYY-MM-DD is read as midnight UTC; Node
  accepts a month of 01 to 12 and a day of 01 to 31 and lets a day past the end of
  its month run into the next month. Every other string goes to the platform.
\<close>

definition new_Date :: "platform \<Rightarrow> string \<Rightarrow> int option" where
  "new_Date p s =
     (if dateRegex s then
        (case split_numbers s of
           (y, m, d) \<Rightarrow>
             if 1 \<le> m \<and> m \<le> 12 \<and> 1 \<le> d \<and> d \<le> 31
             then Some (msPerDay * (days_from_civil y m 1 + d - 1))
             else None)
      else Date_parse p s)"

text \<open>The local-time getters; on an invalid date they return NaN, here \<open>None\<close>.\<close>

definition local_date :: "platform \<Rightarrow> int \<Rightarrow> int \<times> int \<times> int" where
  "local_date p t = civil_from_days ((t + tz_offset p t) div msPerDay)"

definition getFullYear :: "platform \<Rightarrow> int option \<Rightarrow> int option" where
  "getFullYear p date = map_option (\<lambda>t. fst (local_date p t)) date"

definition getMonth :: "platform \<Rightarrow> int option \<Rightarrow> int option" where
  "getMonth p date = map_option (\<lambda>t. fst (snd (local_date p t)) - 1) date"

definition getDate :: "platform \<Rightarrow> int option \<Rightarrow> int option" where
  "getDate p date = map_option (\<lambda>t. snd (snd (local_date p t))) date"

text \<open>\<open>a > b\<close> on two dates compares their time values; with NaN it is false.\<close>

fun date_gt :: "int option \<Rightarrow> int option \<Rightarrow> bool" where
  "date_gt (Some a) (Some b) = (a > b)"
| "date_gt a b = False"

text \<open>
  \<open>Math.ceil((end - start) / (1000 * 60 * 60 * 24))\<close>; the quotient of two integers
  rounded up is exact in integer arithmetic.
\<close>

fun days_between :: "int option \<Rightarrow> int option \<Rightarrow> int option" where
  "days_between (Some s) (Some e) = Some (- ((s - e) div msPerDay))"
| "days_between s e = None"

fun num_gt :: "int option \<Rightarrow> int \<Rightarrow> bool" where
  "num_gt (Some a) b = (a > b)"
| "num_gt None b = False"

section \<open>The validators (utils/validators.js)\<close>

definition validateDate :: "platform \<Rightarrow> jsval \<Rightarrow> bool" where
  "validateDate p dateString =
     (case dateString of
        JStr s \<Rightarrow>
          if s = [] then False
          else if \<not> dateRegex s then False
          else (let date = new_Date p s in
                case split_numbers s of
                  (year, month, day) \<Rightarrow>
                    getFullYear p date = Some year \<and>
                    getMonth p date = Some (month - 1) \<and>
                    getDate p date = Some day)
      | _ \<Rightarrow> False)"

text \<open>
  \<open>validCameras[key]\<close> on the catalogue, a plain object whose own properties are arrays
  of camera names (\<open>VALID_CAMERAS\<close> of routes/mars.js). A key that is not an own
  property is looked up in \<open>Object.prototype\<close>, whose members are functions and, for
  \<open>__proto__\<close>, the prototype object itself: truthy values without an \<open>includes\<close>
  method.
\<close>

datatype member = Absent | Own "string list" | Inherited

definition Object_prototype_keys :: "string list" where
  "Object_prototype_keys =
     [''constructor'', ''hasOwnProperty'', ''isPrototypeOf'', ''propertyIsEnumerable'',
      ''toLocaleString'', ''toString'', ''valueOf'', ''__proto__'', ''__defineGetter__'',
      ''__defineSetter__'', ''__lookupGetter__'', ''__lookupSetter__'']"

definition catalog_get :: "(string \<times> string list) list \<Rightarrow> string \<Rightarrow> member" where
  "catalog_get validCameras k =
     (case map_of validCameras k of
        Some cams \<Rightarrow> Own cams
      | None \<Rightarrow> if k \<in> set Object_prototype_keys then Inherited else Absent)"

text \<open>
  \<open>validateCamera\<close> guards \<open>camera\<close> with a type test and then calls
  \<open>rover.toLowerCase()\<close> unguarded: on a rover that is not a string the call throws a
  TypeError. \<open>roverCameras.includes(...)\<close> throws when the looked-up member is not an
  array.
\<close>

definition validateCamera ::
    "jsval \<Rightarrow> jsval \<Rightarrow> (string \<times> string list) list \<Rightarrow> exn + bool" where
  "validateCamera camera rover validCameras =
     (case camera of
        JStr c \<Rightarrow>
          if c = [] then Inr False
          else (case rover of
                  JStr r \<Rightarrow>
                    (case catalog_get validCameras (toLowerCase r) of
                       Absent \<Rightarrow> Inr False
                     | Own roverCameras \<Rightarrow> Inr (toUpperCase c \<in> set roverCameras)
                     | Inherited \<Rightarrow> Inl TypeError)
                | _ \<Rightarrow> Inl TypeError)
      | _ \<Rightarrow> Inr False)"

definition VALID_CAMERAS :: "(string \<times> string list) list" where
  "VALID_CAMERAS =
     [(''curiosity'', [''FHAZ'', ''RHAZ'', ''MAST'', ''CHEMCAM'', ''MAHLI'', ''MARDI'', ''NAVCAM'']),
      (''opportunity'', [''FHAZ'', ''RHAZ'', ''NAVCAM'', ''PANCAM'', ''MINITES'']),
      (''spirit'', [''FHAZ'', ''RHAZ'', ''NAVCAM'', ''PANCAM'', ''MINITES'']),
      (''perseverance'',
        [''EDL_RUCAM'', ''EDL_RDCAM'', ''EDL_DDCAM'', ''EDL_PUCAM1'', ''EDL_PUCAM2'',
         ''NAVCAM_LEFT'', ''NAVCAM_RIGHT'', ''MCZ_LEFT'', ''MCZ_RIGHT'',
         ''FRONT_HAZCAM_LEFT_A'', ''FRONT_HAZCAM_RIGHT_A'', ''REAR_HAZCAM_LEFT'',
         ''REAR_HAZCAM_RIGHT'', ''SKYCAM'', ''SHERLOC_WATSON''])]"

text \<open>
  \<open>validateDateRange\<close> returns \<open>{isValid: false, message}\<close> or \<open>{isValid: true, days}\<close>.
\<close>

datatype range_result = Range_invalid string | Range_valid "int option"

definition validateDateRange :: "platform \<Rightarrow> jsval \<Rightarrow> jsval \<Rightarrow> int \<Rightarrow> range_result" where
  "validateDateRange p startDate endDate maxDays =
     (if \<not> validateDate p startDate then Range_invalid ''Invalid start date format''
      else if \<not> validateDate p endDate then Range_invalid ''Invalid end date format''
      else (let start = new_Date p (the_string startDate);
                end' = new_Date p (the_string endDate)
            in if date_gt start end'
               then Range_invalid ''Start date must be before or equal to end date''
               else (let daysDiff = days_between start end'
                     in if num_gt daysDiff maxDays
                        then Range_invalid
                               (''Date range cannot exceed '' @ show_int maxDays @ '' days'')
                        else Range_valid (map_option (\<lambda>d. d + 1) daysDiff))))"

text \<open>
  \<open>validateQueryParams(params, rules)\<close>. A rule is \<open>{required, validator, message}\<close>,
  each of them optional. \<open>params\<close> is a plain object, given by its own properties:
  \<open>params[key]\<close> is the own property, else the member of \<open>Object.prototype\<close> of that
  name, else undefined. The loop pushes onto \<open>errors\<close>; the model also records, in
  order, every call of a rule's validator with the key and the value it was given.
\<close>

record rule =
  required :: bool
  validator :: "(jsval \<Rightarrow> bool) option"
  message :: "string option"

definition params_get :: "(string \<times> jsval) list \<Rightarrow> string \<Rightarrow> jsval" where
  "params_get params key =
     (case map_of params key of
        Some v \<Rightarrow> v
      | None \<Rightarrow>
          if key = ''__proto__'' then JObj []
          else if key \<in> set Object_prototype_keys then JFun
          else JUndefined)"

definition is_blank :: "jsval \<Rightarrow> bool" where
  "is_blank v = (v = JUndefined \<or> v = JNull \<or> v = JStr [])"

text \<open>\<open>rule.message || `Invalid ${key}`\<close>: an empty message is falsy.\<close>

definition rule_error :: "string \<Rightarrow> rule \<Rightarrow> string" where
  "rule_error key r =
     (case message r of
        Some m \<Rightarrow> if m = [] then ''Invalid '' @ key else m
      | None \<Rightarrow> ''Invalid '' @ key)"

fun check_rule ::
    "(string \<times> jsval) list \<Rightarrow> string list \<times> (string \<times> jsval) list \<Rightarrow> string \<times> rule
       \<Rightarrow> string list \<times> (string \<times> jsval) list" where
  "check_rule params (errors, calls) (key, r) =
     (let v = params_get params key in
      if required r \<and> is_blank v then (errors @ [key @ '' is required''], calls)
      else if is_blank v then (errors, calls)
      else (case validator r of
              None \<Rightarrow> (errors, calls)
            | Some f \<Rightarrow>
                if \<not> f v then (errors @ [rule_error key r], calls @ [(key, v)])
                else (errors, calls @ [(key, v)])))"

definition run_rules ::
    "(string \<times> jsval) list \<Rightarrow> (string \<times> rule) list \<Rightarrow> string list \<times> (string \<times> jsval) list" where
  "run_rules params rules = foldl (check_rule params) ([], []) rules"

record validation =
  isValid :: bool
  errors :: "string list"

definition validateQueryParams :: "(string \<times> jsval) list \<Rightarrow> (string \<times> rule) list \<Rightarrow> validation" where
  "validateQueryParams params rules =
     (let errs = fst (run_rules params rules) in \<lparr>isValid = (errs = []), errors = errs\<rparr>)"

definition validator_calls ::
    "(string \<times> jsval) list \<Rightarrow> (string \<times> rule) list \<Rightarrow> (string \<times> jsval) list" where
  "validator_calls params rules = snd (run_rules params rules)"

text \<open>\<open>validateCount(count, min, max)\<close>: \<open>parseInt\<close>, then the range test.\<close>

definition validateCount :: "platform \<Rightarrow> jsval \<Rightarrow> int \<Rightarrow> int \<Rightarrow> bool" where
  "validateCount p count' lo hi =
     (case parseInt p count' of Some num \<Rightarrow> num \<ge> lo \<and> num \<le> hi | None \<Rightarrow> False)"

section \<open>Timestamps\<close>

definition pad :: "nat \<Rightarrow> int \<Rightarrow> string" where
  "pad k n = replicate (k - length (show_nat (nat n))) (CHR ''0'') @ show_nat (nat n)"

definition iso_year :: "int \<Rightarrow> string" where
  "iso_year y =
     (if 0 \<le> y \<and> y \<le> 9999 then pad 4 y
      else if y < 0 then CHR ''-'' # pad 6 (- y)
      else CHR ''+'' # pad 6 y)"

text \<open>\<open>new Date(t).toISOString().split('T')[0]\<close>: the UTC date of an instant.\<close>

definition iso_date :: "int \<Rightarrow> string" where
  "iso_date t =
     (case civil_from_days (t div msPerDay) of
        (y, m, d) \<Rightarrow> iso_year y @ ''-'' @ pad 2 m @ ''-'' @ pad 2 d)"

definition toISOString :: "int \<Rightarrow> string" where
  "toISOString t =
     (let r = t mod msPerDay in
      iso_date t @ ''T'' @ pad 2 (r div 3600000) @ '':'' @ pad 2 (r mod 3600000 div 60000)
        @ '':'' @ pad 2 (r mod 60000 div 1000) @ ''.'' @ pad 3 (r mod 1000) @ ''Z'')"

section \<open>Errors and responses\<close>

text \<open>
  An error object as the handlers and the error middleware read it: \<open>name\<close>,
  \<open>message\<close>, \<open>code\<close>, of an HTTP client error its \<open>response\<close>, as the status
  with the text \<open>response.data?.error?.message || response.statusText\<close>, and of a
  validation error the messages of \<open>Object.values(err.errors)\<close>.
\<close>

record js_error =
  err_name :: string
  err_message :: string
  err_code :: "string option"
  err_response :: "(nat \<times> string) option"
  err_errors :: "string list"

definition new_Error :: "string \<Rightarrow> js_error" where
  "new_Error m =
     \<lparr>err_name = ''Error'', err_message = m, err_code = None, err_response = None,
      err_errors = []\<rparr>"

definition new_TypeError :: "string \<Rightarrow> js_error" where
  "new_TypeError m =
     \<lparr>err_name = ''TypeError'', err_message = m, err_code = None, err_response = None,
      err_errors = []\<rparr>"

text \<open>\<open>xs.join(', ')\<close>.\<close>

fun join_comma :: "string list \<Rightarrow> string" where
  "join_comma [] = []"
| "join_comma [x] = x"
| "join_comma (x # y # ys) = x @ '', '' @ join_comma (y # ys)"

definition err_stack :: "platform \<Rightarrow> js_error \<Rightarrow> string" where
  "err_stack p e = err_name e @ '': '' @ err_message e @ stack_frames p"

text \<open>
  What a handler sends: \<open>res.status(n).json({...})\<close> with the fields of the body, or
  \<open>res.json({success: true, data, meta})\<close> with the data and the fields of \<open>meta\<close>.
\<close>

datatype 'd response =
    Failure nat "(string \<times> jsval) list"
  | Success 'd "(string \<times> jsval) list"

text \<open>The error middleware (middleware/errorHandler.js), reached through \<open>next(error)\<close>.\<close>

definition errorHandler :: "platform \<Rightarrow> js_error \<Rightarrow> nat \<times> (string \<times> jsval) list" where
  "errorHandler p err =
     (if str_includes (err_message err) ''NASA API rate limit exceeded'' then
        (429,
          [(''success'', JBool False), (''error'', JStr ''Rate limit exceeded''),
           (''message'', JStr ''Too many requests to NASA API. Please try again later.''),
           (''retryAfter'', JNum 3600)])
      else if str_includes (err_message err) ''Invalid NASA API key'' then
        (403,
          [(''success'', JBool False), (''error'', JStr ''API key invalid''),
           (''message'',
            JStr ''NASA API key is invalid or missing. Please check server configuration.'')])
      else if str_includes (err_message err) ''NASA API is currently unavailable'' then
        (503,
          [(''success'', JBool False), (''error'', JStr ''Service unavailable''),
           (''message'', JStr ''NASA API is temporarily unavailable. Please try again later.'')])
      else (case err_response err of
        Some (status, m) \<Rightarrow>
          (status,
            [(''success'', JBool False), (''error'', JStr ''External API error''),
             (''message'',
              JStr (''NASA API returned '' @ show_nat status @ '': '' @ m))])
      | None \<Rightarrow>
          if err_name err = ''ValidationError'' then
            (400,
              [(''success'', JBool False), (''error'', JStr ''Validation error''),
               (''message'', JStr (join_comma (err_errors err)))])
          else if err_name err = ''CastError'' then
            (400,
              [(''success'', JBool False), (''error'', JStr ''Invalid parameter''),
               (''message'', JStr ''Invalid parameter format provided'')])
          else if err_code err = Some ''ECONNABORTED'' \<or> str_includes (err_message err) ''timeout''
          then
            (408,
              [(''success'', JBool False), (''error'', JStr ''Request timeout''),
               (''message'', JStr ''Request to NASA API timed out. Please try again.'')])
          else if err_code err = Some ''ENOTFOUND'' \<or> err_code err = Some ''ECONNREFUSED'' then
            (503,
              [(''success'', JBool False), (''error'', JStr ''Network error''),
               (''message'', JStr ''Unable to connect to NASA API. Please try again later.'')])
          else
            (500,
              ([(''success'', JBool False), (''error'', JStr ''Internal server error''),
                (''message'',
                 JStr (if NODE_ENV p = Some ''production''
                       then ''Something went wrong on our end. Please try again later.''
                       else err_message err))]
               @ (if NODE_ENV p = Some ''development''
                  then [(''stack'', JStr (err_stack p err))] else [])))))"

text \<open>\<open>next(error)\<close> in a handler: the response is the middleware's.\<close>

definition next_error :: "platform \<Rightarrow> js_error \<Rightarrow> 'd response" where
  "next_error p err = (case errorHandler p err of (status, body) \<Rightarrow> Failure status body)"


section \<open>The cache\<close>

text \<open>
  Modelled from the spec: the cache is an instance of the \<open>node-cache\<close> package, whose
  code is not among the sources. An entry is a value with its expiry; the counters
  count the hits and the misses of \<open>get\<close>.
\<close>

record 'v cache =
  entries :: "string \<Rightarrow> ('v \<times> int) option"
  hits :: nat
  misses :: nat

text \<open>
  Modelled from the spec: \<open>get(key)\<close> of the absent \<open>node-cache\<close> package. It counts a
  hit when the key is present and not expired and a miss otherwise; an expired entry is
  treated as absent.
\<close>

definition cache_get :: "int \<Rightarrow> string \<Rightarrow> 'v cache \<Rightarrow> 'v option \<times> 'v cache" where
  "cache_get t key c =
     (case entries c key of
        Some (v, expiry) \<Rightarrow>
          if t < expiry then (Some v, c\<lparr>hits := hits c + 1\<rparr>)
          else (None, c\<lparr>entries := (entries c)(key := None), misses := misses c + 1\<rparr>)
      | None \<Rightarrow> (None, c\<lparr>misses := misses c + 1\<rparr>))"

text \<open>
  Modelled from the spec: \<open>set(key, value, ttlSeconds)\<close> of the absent \<open>node-cache\<close>
  package. It stores the value with expiry now + ttl and overwrites an existing entry.
\<close>

definition cache_set :: "int \<Rightarrow> string \<Rightarrow> 'v \<Rightarrow> int \<Rightarrow> 'v cache \<Rightarrow> 'v cache" where
  "cache_set t key v ttl c = c\<lparr>entries := (entries c)(key \<mapsto> (v, t + 1000 * ttl))\<rparr>"

definition empty_cache :: "'v cache" where
  "empty_cache = \<lparr>entries = (\<lambda>k. None), hits = 0, misses = 0\<rparr>"

section \<open>The upstream client (services/nasaApi.js)\<close>

text \<open>
  The HTTP client: \<open>this.client.get(endpoint, {params})\<close> answers with a payload or
  fails with an error; the answer may depend on how many requests went before. The
  service returns a cached payload only when it is truthy (\<open>if (cachedData)\<close>), so
  the upstream says which payloads are. The state of the service is its cache and,
  for the record, the requests it has sent upstream, oldest first.
\<close>

record 'd upstream =
  http_get :: "nat \<Rightarrow> string \<Rightarrow> (string \<times> jsval) list \<Rightarrow> js_error + 'd"
  truthy :: "'d \<Rightarrow> bool"

record 'd service =
  cache :: "'d cache"
  calls :: "(string \<times> (string \<times> jsval) list) list"

definition fresh_service :: "'d service" where
  "fresh_service = \<lparr>cache = empty_cache, calls = []\<rparr>"

definition default_ttl :: "platform \<Rightarrow> int" where
  "default_ttl p = (case CACHE_TTL_SECONDS p of Some t \<Rightarrow> if t = 0 then 3600 else t | None \<Rightarrow> 3600)"

definition response_status :: "js_error \<Rightarrow> nat option" where
  "response_status e = map_option fst (err_response e)"

definition upstream_failure :: "js_error \<Rightarrow> js_error" where
  "upstream_failure e =
     (if response_status e = Some 429
      then new_Error ''NASA API rate limit exceeded. Please try again later.''
      else if response_status e = Some 403
      then new_Error ''Invalid NASA API key. Please check your configuration.''
      else if (case response_status e of Some st \<Rightarrow> st \<ge> 500 | None \<Rightarrow> False)
      then new_Error ''NASA API is currently unavailable. Please try again later.''
      else new_Error (''NASA API request failed: '' @ err_message e))"

definition fetch_upstream ::
    "platform \<Rightarrow> 'd upstream \<Rightarrow> string \<Rightarrow> (string \<times> jsval) list \<Rightarrow> string \<Rightarrow> int option
       \<Rightarrow> 'd service \<Rightarrow> (js_error + 'd) \<times> 'd service" where
  "fetch_upstream p up endpoint params finalCacheKey cacheTTL s =
     (let s' = s\<lparr>calls := calls s @ [(endpoint, params)]\<rparr> in
      case http_get up (length (calls s)) endpoint params of
        Inr data \<Rightarrow>
          (let ttl = (case cacheTTL of
                        Some t \<Rightarrow> if t = 0 then default_ttl p else t
                      | None \<Rightarrow> default_ttl p)
           in (Inr data, s'\<lparr>cache := cache_set (now p) finalCacheKey data ttl (cache s')\<rparr>))
      | Inl e \<Rightarrow> (Inl (upstream_failure e), s'))"

definition makeRequest ::
    "platform \<Rightarrow> 'd upstream \<Rightarrow> string \<Rightarrow> (string \<times> jsval) list \<Rightarrow> string option \<Rightarrow> int option
       \<Rightarrow> 'd service \<Rightarrow> (js_error + 'd) \<times> 'd service" where
  "makeRequest p up endpoint params cacheKey cacheTTL s =
     (let finalCacheKey =
            (case cacheKey of
               Some k \<Rightarrow> if k = [] then endpoint @ ''_'' @ JSON_stringify p params else k
             | None \<Rightarrow> endpoint @ ''_'' @ JSON_stringify p params);
          looked = cache_get (now p) finalCacheKey (cache s);
          s1 = s\<lparr>cache := snd looked\<rparr>
      in case fst looked of
           Some cachedData \<Rightarrow>
             if truthy up cachedData then (Inr cachedData, s1)
             else fetch_upstream p up endpoint params finalCacheKey cacheTTL s1
         | None \<Rightarrow> fetch_upstream p up endpoint params finalCacheKey cacheTTL s1)"

definition present :: "string \<Rightarrow> jsval \<Rightarrow> (string \<times> jsval) list" where
  "present k v = (if falsy v then [] else [(k, v)])"

definition getAPOD ::
    "platform \<Rightarrow> 'd upstream \<Rightarrow> jsval \<Rightarrow> jsval \<Rightarrow> jsval \<Rightarrow> jsval \<Rightarrow> 'd service
       \<Rightarrow> (js_error + 'd) \<times> 'd service" where
  "getAPOD p up date count' startDate endDate s =
     (let params = present ''date'' date @ present ''count'' count'
                     @ present ''start_date'' startDate @ present ''end_date'' endDate;
          cacheKey = ''apod_'' @ JSON_stringify p params
      in makeRequest p up ''/planetary/apod'' params (Some cacheKey) None s)"

definition getNearEarthObjects ::
    "platform \<Rightarrow> 'd upstream \<Rightarrow> jsval \<Rightarrow> jsval \<Rightarrow> bool \<Rightarrow> 'd service
       \<Rightarrow> (js_error + 'd) \<times> 'd service" where
  "getNearEarthObjects p up startDate endDate detailed s =
     (let params = [(''detailed_destruction'', JBool detailed)]
                     @ present ''start_date'' startDate @ present ''end_date'' endDate;
          cacheKey = ''neows_'' @ JSON_stringify p params
      in makeRequest p up ''/neo/rest/v1/feed'' params (Some cacheKey) None s)"

definition getNearEarthObjectById ::
    "platform \<Rightarrow> 'd upstream \<Rightarrow> string \<Rightarrow> 'd service \<Rightarrow> (js_error + 'd) \<times> 'd service" where
  "getNearEarthObjectById p up asteroidId s =
     makeRequest p up (''/neo/rest/v1/neo/'' @ asteroidId) []
       (Some (''neows_object_'' @ asteroidId)) (Some 86400) s"

definition getEPICImages ::
    "platform \<Rightarrow> 'd upstream \<Rightarrow> string \<Rightarrow> string \<Rightarrow> 'd service \<Rightarrow> (js_error + 'd) \<times> 'd service" where
  "getEPICImages p up date type' s =
     (let today = iso_date (now p);
          targetDate = (if date = [] then today else date)
      in makeRequest p up (''/EPIC/api/'' @ type' @ ''/date/'' @ targetDate) []
           (Some (''epic_'' @ type' @ ''_'' @ targetDate)) None s)"

section \<open>The APOD routes (routes/apod.js)\<close>

text \<open>
  A handler reads \<open>req.query\<close>, a function from parameter names to values with
  undefined for a parameter that is not there, and threads the state of the service.
  \<open>GET /apod\<close>:
\<close>

definition apod_root ::
    "platform \<Rightarrow> 'd upstream \<Rightarrow> (string \<Rightarrow> jsval) \<Rightarrow> 'd service \<Rightarrow> 'd response \<times> 'd service" where
  "apod_root p up query s =
     (let date = query ''date''; count' = query ''count'';
          start_date = query ''start_date''; end_date = query ''end_date''
      in if \<not> falsy date \<and> \<not> validateDate p date then
           (Failure 400
              [(''success'', JBool False), (''error'', JStr ''Invalid date format''),
               (''message'', JStr ''Date must be in YYYY-MM-DD format'')], s)
         else if \<not> falsy count' \<and> \<not> validateCount p count' 1 100 then
           (Failure 400
              [(''success'', JBool False), (''error'', JStr ''Invalid count''),
               (''message'', JStr ''Count must be between 1 and 100'')], s)
         else if \<not> falsy start_date \<and> \<not> validateDate p start_date then
           (Failure 400
              [(''success'', JBool False), (''error'', JStr ''Invalid start_date format''),
               (''message'', JStr ''Start date must be in YYYY-MM-DD format'')], s)
         else if \<not> falsy end_date \<and> \<not> validateDate p end_date then
           (Failure 400
              [(''success'', JBool False), (''error'', JStr ''Invalid end_date format''),
               (''message'', JStr ''End date must be in YYYY-MM-DD format'')], s)
         else if \<not> falsy start_date \<and> \<not> falsy end_date \<and>
                 date_gt (new_Date p (the_string start_date)) (new_Date p (the_string end_date))
         then
           (Failure 400
              [(''success'', JBool False), (''error'', JStr ''Invalid date range''),
               (''message'', JStr ''Start date must be before end date'')], s)
         else (case getAPOD p up date count' start_date end_date s of
                 (Inl e, s') \<Rightarrow> (next_error p e, s')
               | (Inr data, s') \<Rightarrow>
                   (Success data
                      [(''endpoint'', JStr ''apod''), (''cached'', JBool True),
                       (''timestamp'', JStr (toISOString (now p)))], s')))"

text \<open>\<open>daysDiff + 1\<close> as a number of the response; NaN when a date is invalid.\<close>

definition js_days :: "int option \<Rightarrow> jsval" where
  "js_days d = (case d of Some n \<Rightarrow> JNum (of_int (n + 1)) | None \<Rightarrow> JNaN)"

text \<open>\<open>GET /apod/range\<close>:\<close>

definition apod_range ::
    "platform \<Rightarrow> 'd upstream \<Rightarrow> (string \<Rightarrow> jsval) \<Rightarrow> 'd service \<Rightarrow> 'd response \<times> 'd service" where
  "apod_range p up query s =
     (let start_date = query ''start_date''; end_date = query ''end_date''
      in if falsy start_date \<or> falsy end_date then
           (Failure 400
              [(''success'', JBool False), (''error'', JStr ''Missing parameters''),
               (''message'', JStr ''Both start_date and end_date are required'')], s)
         else if \<not> (validateDate p start_date \<and> validateDate p end_date) then
           (Failure 400
              [(''success'', JBool False), (''error'', JStr ''Invalid date format''),
               (''message'', JStr ''Dates must be in YYYY-MM-DD format'')], s)
         else if date_gt (new_Date p (the_string start_date)) (new_Date p (the_string end_date))
         then
           (Failure 400
              [(''success'', JBool False), (''error'', JStr ''Invalid date range''),
               (''message'', JStr ''Start date must be before end date'')], s)
         else (let daysDiff = days_between (new_Date p (the_string start_date))
                                           (new_Date p (the_string end_date))
               in if num_gt daysDiff 100 then
                    (Failure 400
                       [(''success'', JBool False), (''error'', JStr ''Date range too large''),
                        (''message'', JStr ''Date range cannot exceed 100 days'')], s)
                  else (case getAPOD p up JNull JNull start_date end_date s of
                          (Inl e, s') \<Rightarrow> (next_error p e, s')
                        | (Inr data, s') \<Rightarrow>
                            (Success data
                               [(''endpoint'', JStr ''apod/range''),
                                (''start_date'', start_date), (''end_date'', end_date),
                                (''days'', js_days daysDiff), (''cached'', JBool True),
                                (''timestamp'', JStr (toISOString (now p)))], s'))))"

section \<open>The NEO routes (routes/neows.js)\<close>

text \<open>
  The payloads of the NEO endpoints, with the fields the handlers read: of a close
  approach its date and, as the strings the upstream sends, the miss distance in
  kilometres and the relative velocity in kilometres per hour; of an object its name,
  the hazard flag, the maximal estimated diameter in kilometres and its close
  approaches; of a feed the objects by date, in the order of the payload.
\<close>

record approach =
  close_approach_date :: string
  miss_distance_kilometers :: string
  kilometers_per_hour :: string

record neo =
  neo_name :: string
  is_potentially_hazardous_asteroid :: bool
  estimated_diameter_max :: real
  close_approach_data :: "approach list"

record feed =
  element_count :: int
  near_earth_objects :: "(string \<times> neo list) list"

record closest =
  object_name :: string
  distance :: "real option"
  approach_date :: string
  velocity :: "real option"

record largest =
  largest_name :: string
  diameter :: real
  is_hazardous :: bool

record risk_summary =
  total_objects :: int
  potentially_hazardous :: nat
  close_approaches :: nat
  largest_object :: "largest option"
  closest_approach :: "closest option"

record feed_out =
  feed_data :: feed
  summary :: risk_summary

text \<open>\<open>a < b\<close> on two numbers, false when one of them is NaN.\<close>

fun num_lt :: "real option \<Rightarrow> real option \<Rightarrow> bool" where
  "num_lt (Some a) (Some b) = (a < b)"
| "num_lt a b = False"

text \<open>The body of \<open>obj.close_approach_data.forEach\<close>.\<close>

definition scan_approach :: "platform \<Rightarrow> neo \<Rightarrow> risk_summary \<Rightarrow> approach \<Rightarrow> risk_summary" where
  "scan_approach p obj rs a =
     (let rs1 = rs\<lparr>close_approaches := close_approaches rs + 1\<rparr>;
          dist = parseFloat p (miss_distance_kilometers a);
          nearer = (case closest_approach rs1 of
                      None \<Rightarrow> True
                    | Some c \<Rightarrow> num_lt dist (distance c))
      in if nearer
         then rs1\<lparr>closest_approach :=
                    Some \<lparr>object_name = neo_name obj, distance = dist,
                          approach_date = close_approach_date a,
                          velocity = parseFloat p (kilometers_per_hour a)\<rparr>\<rparr>
         else rs1)"

text \<open>The body of the outer \<open>forEach\<close> over all objects of all dates.\<close>

definition scan_object :: "platform \<Rightarrow> risk_summary \<Rightarrow> neo \<Rightarrow> risk_summary" where
  "scan_object p rs obj =
     (let rs1 = (if is_potentially_hazardous_asteroid obj
                 then rs\<lparr>potentially_hazardous := potentially_hazardous rs + 1\<rparr> else rs);
          rs2 = foldl (scan_approach p obj) rs1 (close_approach_data obj);
          larger = (case largest_object rs2 of
                      None \<Rightarrow> True
                    | Some l \<Rightarrow> estimated_diameter_max obj > diameter l)
      in if larger
         then rs2\<lparr>largest_object :=
                    Some \<lparr>largest_name = neo_name obj, diameter = estimated_diameter_max obj,
                          is_hazardous = is_potentially_hazardous_asteroid obj\<rparr>\<rparr>
         else rs2)"

definition assess :: "platform \<Rightarrow> feed \<Rightarrow> risk_summary" where
  "assess p data =
     foldl (scan_object p)
       \<lparr>total_objects = element_count data, potentially_hazardous = 0, close_approaches = 0,
        largest_object = None, closest_approach = None\<rparr>
       (concat (map snd (near_earth_objects data)))"

text \<open>\<open>GET /neows/feed\<close>:\<close>

definition neows_feed ::
    "platform \<Rightarrow> feed upstream \<Rightarrow> (string \<Rightarrow> jsval) \<Rightarrow> feed service
       \<Rightarrow> feed_out response \<times> feed service" where
  "neows_feed p up query s =
     (let start_date = query ''start_date''; end_date = query ''end_date'';
          detailed = (if query ''detailed'' = JUndefined then JBool False else query ''detailed'');
          today = JStr (iso_date (now p));
          startDate = (if falsy start_date then today else start_date);
          endDate = (if falsy end_date then today else end_date)
      in if \<not> validateDate p startDate then
           (Failure 400
              [(''success'', JBool False), (''error'', JStr ''Invalid start_date format''),
               (''message'', JStr ''Start date must be in YYYY-MM-DD format'')], s)
         else if \<not> validateDate p endDate then
           (Failure 400
              [(''success'', JBool False), (''error'', JStr ''Invalid end_date format''),
               (''message'', JStr ''End date must be in YYYY-MM-DD format'')], s)
         else if date_gt (new_Date p (the_string startDate)) (new_Date p (the_string endDate))
         then
           (Failure 400
              [(''success'', JBool False), (''error'', JStr ''Invalid date range''),
               (''message'', JStr ''Start date must be before or equal to end date'')], s)
         else (let daysDiff = days_between (new_Date p (the_string startDate))
                                           (new_Date p (the_string endDate))
               in if num_gt daysDiff 7 then
                    (Failure 400
                       [(''success'', JBool False), (''error'', JStr ''Date range too large''),
                        (''message'', JStr ''Date range cannot exceed 7 days'')], s)
                  else (case getNearEarthObjects p up startDate endDate
                               (detailed = JStr ''true'') s of
                          (Inl e, s') \<Rightarrow> (next_error p e, s')
                        | (Inr data, s') \<Rightarrow>
                            (Success \<lparr>feed_data = data, summary = assess p data\<rparr>
                               [(''endpoint'', JStr ''neows/feed''),
                                (''start_date'', startDate), (''end_date'', endDate),
                                (''days'', js_days daysDiff),
                                (''detailed'', JBool (detailed = JStr ''true'')),
                                (''cached'', JBool True),
                                (''timestamp'', JStr (toISOString (now p)))], s'))))"

text \<open>
  The helper \<open>categorizeSize\<close>. A diameter is a number of the JSON payload. The
  literals 0.001, 0.01 and 0.1 each read as the floating-point number just above the
  decimal, so a floating-point diameter lies below the literal exactly when it lies
  below the decimal, and the comparisons are those of the exact numbers.
\<close>

definition categorizeSize :: "real \<Rightarrow> string" where
  "categorizeSize diameterKm =
     (if diameterKm < 0.001 then ''TINY''
      else if diameterKm < 0.01 then ''SMALL''
      else if diameterKm < 0.1 then ''MEDIUM''
      else if diameterKm < 1 then ''LARGE''
      else ''MASSIVE'')"

record upcoming =
  date_of :: string
  distance_km :: "real option"
  velocity_kmh :: "real option"

record analysis =
  risk_level :: string
  size_category :: string
  next_approach :: "upcoming option"
  approach_count :: nat

record neo_out =
  neo_data :: neo
  analysed :: analysis

text \<open>
  The time value of an approach's date, and whether it lies after now
  (\<open>new Date(approach.close_approach_date) > now\<close>).
\<close>

definition approach_time :: "platform \<Rightarrow> approach \<Rightarrow> int option" where
  "approach_time p a = new_Date p (close_approach_date a)"

definition in_future :: "platform \<Rightarrow> approach \<Rightarrow> bool" where
  "in_future p a = date_gt (approach_time p a) (Some (now p))"

text \<open>
  The key by which \<open>sort\<close> orders the approaches that passed the filter; all of them
  have a valid date. \<open>Array.prototype.sort\<close> is stable, as \<open>sort_key\<close> is.
\<close>

definition sort_time :: "platform \<Rightarrow> approach \<Rightarrow> int" where
  "sort_time p a = (case approach_time p a of Some t \<Rightarrow> t | None \<Rightarrow> 0)"

definition futureApproaches :: "platform \<Rightarrow> neo \<Rightarrow> approach list" where
  "futureApproaches p data =
     sort_key (sort_time p) (filter (in_future p) (close_approach_data data))"

definition analyse :: "platform \<Rightarrow> neo \<Rightarrow> analysis" where
  "analyse p data =
     \<lparr>risk_level = (if is_potentially_hazardous_asteroid data then ''HIGH'' else ''LOW''),
      size_category = categorizeSize (estimated_diameter_max data),
      next_approach =
        (case futureApproaches p data of
           [] \<Rightarrow> None
         | a # rest \<Rightarrow>
             Some \<lparr>date_of = close_approach_date a,
                   distance_km = parseFloat p (miss_distance_kilometers a),
                   velocity_kmh = parseFloat p (kilometers_per_hour a)\<rparr>),
      approach_count = length (close_approach_data data)\<rparr>"

text \<open>\<open>GET /neows/object/:id\<close>:\<close>

definition neows_object ::
    "platform \<Rightarrow> neo upstream \<Rightarrow> jsval \<Rightarrow> neo service \<Rightarrow> neo_out response \<times> neo service" where
  "neows_object p up id' s =
     (case id' of
        JStr i \<Rightarrow>
          if i = [] then
            (Failure 400
               [(''success'', JBool False), (''error'', JStr ''Invalid asteroid ID''),
                (''message'', JStr ''Asteroid ID is required and must be a string'')], s)
          else (case getNearEarthObjectById p up i s of
                  (Inl e, s') \<Rightarrow> (next_error p e, s')
                | (Inr data, s') \<Rightarrow>
                    (Success \<lparr>neo_data = data, analysed = analyse p data\<rparr>
                       [(''endpoint'', JStr (''neows/object/'' @ i)),
                        (''asteroid_id'', JStr i), (''cached'', JBool True),
                        (''timestamp'', JStr (toISOString (now p)))], s'))
      | _ \<Rightarrow>
          (Failure 400
             [(''success'', JBool False), (''error'', JStr ''Invalid asteroid ID''),
              (''message'', JStr ''Asteroid ID is required and must be a string'')], s))"

section \<open>The EPIC routes (routes/epic.js)\<close>

definition VALID_TYPES :: "string list" where
  "VALID_TYPES = [''natural'', ''enhanced'']"

text \<open>
  An image of the payload, with the fields the handler reads, and what the handler
  makes of it: the image with its two URLs and the positional fields once more under
  \<open>metadata\<close>.
\<close>

record epic_image =
  image_name :: string
  image_date :: string
  sun_j2000_position :: jsval
  lunar_j2000_position :: jsval
  attitude_quaternions :: jsval
  coords :: jsval

record epic_out =
  source_image :: epic_image
  image_url :: string
  thumbnail_url :: string
  metadata :: "jsval \<times> jsval \<times> jsval \<times> jsval"

text \<open>\<open>image.date.split(' ')[0].replace(/-/g, '/')\<close>.\<close>

definition date_path :: "string \<Rightarrow> string" where
  "date_path d =
     map (\<lambda>c. if c = CHR ''-'' then CHR ''/'' else c) (takeWhile (\<lambda>c. c \<noteq> CHR '' '') d)"

definition api_key :: "platform \<Rightarrow> string" where
  "api_key p = (case NASA_API_KEY p of Some k \<Rightarrow> if k = [] then ''DEMO_KEY'' else k
                | None \<Rightarrow> ''DEMO_KEY'')"

definition enhance :: "platform \<Rightarrow> string \<Rightarrow> epic_image \<Rightarrow> epic_out" where
  "enhance p type' img =
     \<lparr>source_image = img,
      image_url = ''https://api.nasa.gov/EPIC/archive/'' @ type' @ ''/''
                    @ date_path (image_date img) @ ''/png/'' @ image_name img
                    @ ''.png?api_key='' @ api_key p,
      thumbnail_url = ''https://api.nasa.gov/EPIC/archive/'' @ type' @ ''/''
                    @ date_path (image_date img) @ ''/thumbs/'' @ image_name img
                    @ ''.jpg?api_key='' @ api_key p,
      metadata = (sun_j2000_position img, lunar_j2000_position img,
                  attitude_quaternions img, coords img)\<rparr>"

text \<open>
  \<open>type.toLowerCase()\<close> on a value that is not a string throws; the handler's
  \<open>catch\<close> passes the error on.
\<close>

definition no_toLowerCase :: "jsval \<Rightarrow> js_error" where
  "no_toLowerCase v =
     (if v = JNull
      then new_TypeError ''Cannot read properties of null (reading 'toLowerCase')''
      else new_TypeError ''type.toLowerCase is not a function'')"

text \<open>\<open>GET /epic/images\<close>:\<close>

definition epic_images ::
    "platform \<Rightarrow> epic_image list upstream \<Rightarrow> (string \<Rightarrow> jsval) \<Rightarrow> epic_image list service
       \<Rightarrow> epic_out list response \<times> epic_image list service" where
  "epic_images p up query s =
     (let date = query ''date'';
          type' = (if query ''type'' = JUndefined then JStr ''natural'' else query ''type'')
      in case type' of
           JStr t \<Rightarrow>
             if \<not> (toLowerCase t \<in> set VALID_TYPES) then
               (Failure 400
                  [(''success'', JBool False), (''error'', JStr ''Invalid type''),
                   (''message'', JStr (''Type must be one of: '' @ join_comma VALID_TYPES))], s)
             else (let today = JStr (iso_date (now p));
                       targetDate = (if falsy date then today else date)
                   in if \<not> validateDate p targetDate then
                        (Failure 400
                           [(''success'', JBool False), (''error'', JStr ''Invalid date format''),
                            (''message'', JStr ''Date must be in YYYY-MM-DD format'')], s)
                      else if date_gt (new_Date p (the_string targetDate)) (Some (now p)) then
                        (Failure 400
                           [(''success'', JBool False), (''error'', JStr ''Invalid date''),
                            (''message'', JStr ''Date cannot be in the future'')], s)
                      else (case getEPICImages p up (the_string targetDate) (toLowerCase t) s of
                              (Inl e, s') \<Rightarrow> (next_error p e, s')
                            | (Inr data, s') \<Rightarrow>
                                (Success (map (enhance p (toLowerCase t)) data)
                                   [(''endpoint'', JStr ''epic/images''),
                                    (''date'', targetDate), (''type'', JStr (toLowerCase t)),
                                    (''count'', JNum (of_nat (length data))),
                                    (''cached'', JBool True),
                                    (''timestamp'', JStr (toISOString (now p)))], s')))
         | v \<Rightarrow> (next_error p (no_toLowerCase v), s))"

section \<open>The image proxy (routes/proxy.js)\<close>

definition allowedDomains :: "string list" where
  "allowedDomains =
     [''apod.nasa.gov'', ''mars.nasa.gov'', ''api.nasa.gov'', ''epic.gsfc.nasa.gov'',
      ''photojournal.jpl.nasa.gov'']"

definition isAllowedDomain :: "string \<Rightarrow> bool" where
  "isAllowedDomain hostname =
     list_ex (\<lambda>domain. str_includes hostname domain \<or> endsWith hostname domain) allowedDomains"

text \<open>
  A cached image is its bytes with its content type. The state of the proxy is the
  image cache and, for the record, the URLs it has fetched, oldest first. A fetch
  (\<open>axios.get(url, ...)\<close>) answers with the bytes and the \<open>content-type\<close> header, if
  there is one, or fails.
\<close>

record image =
  img_data :: string
  contentType :: string

record proxy =
  imageCache :: "image cache"
  fetched :: "jsval list"

definition fresh_proxy :: proxy where
  "fresh_proxy = \<lparr>imageCache = empty_cache, fetched = []\<rparr>"

datatype proxy_response =
    Json nat "(string \<times> jsval) list"
  | Sent "(string \<times> string) list" string

definition image_headers :: "string \<Rightarrow> string \<Rightarrow> string \<Rightarrow> (string \<times> string) list" where
  "image_headers ct bytes x_cache =
     [(''Content-Type'', ct), (''Content-Length'', show_nat (length bytes)),
      (''Cache-Control'', ''public, max-age=86400''), (''X-Cache'', x_cache)]"

definition invalid_url :: js_error where
  "invalid_url =
     \<lparr>err_name = ''TypeError'', err_message = ''Invalid URL'',
      err_code = Some ''ERR_INVALID_URL'', err_response = None, err_errors = []\<rparr>"

text \<open>The \<open>catch\<close> block of the handler.\<close>

definition proxy_failed :: "platform \<Rightarrow> js_error \<Rightarrow> proxy_response" where
  "proxy_failed p e =
     (if err_code e = Some ''ECONNABORTED'' \<or> str_includes (err_message e) ''timeout'' then
        Json 408
          [(''success'', JBool False), (''error'', JStr ''Request timeout''),
           (''message'', JStr ''Image request timed out'')]
      else if response_status e = Some 404 then
        Json 404
          [(''success'', JBool False), (''error'', JStr ''Image not found''),
           (''message'', JStr ''The requested image could not be found'')]
      else (case errorHandler p e of (status, body) \<Rightarrow> Json status body))"

text \<open>\<open>GET /proxy/image\<close>:\<close>

definition proxy_image ::
    "platform \<Rightarrow> (nat \<Rightarrow> jsval \<Rightarrow> js_error + string \<times> string option) \<Rightarrow> (string \<Rightarrow> jsval) \<Rightarrow> proxy
       \<Rightarrow> proxy_response \<times> proxy" where
  "proxy_image p axios_get query st =
     (let url = query ''url'' in
      if falsy url then
        (Json 400
           [(''success'', JBool False), (''error'', JStr ''Missing URL parameter''),
            (''message'', JStr ''Image URL is required'')], st)
      else (case URL_hostname p url of
              None \<Rightarrow> (proxy_failed p invalid_url, st)
            | Some hostname \<Rightarrow>
                if \<not> isAllowedDomain hostname then
                  (Json 403
                     [(''success'', JBool False), (''error'', JStr ''Forbidden domain''),
                      (''message'', JStr ''Only NASA domains are allowed'')], st)
                else (let cacheKey = ''image_'' @ base64 p url;
                          looked = cache_get (now p) cacheKey (imageCache st);
                          st1 = st\<lparr>imageCache := snd looked\<rparr>
                      in case fst looked of
                           Some cachedImage \<Rightarrow>
                             (Sent (image_headers (contentType cachedImage)
                                      (img_data cachedImage) ''HIT'')
                                (img_data cachedImage), st1)
                         | None \<Rightarrow>
                             (let st2 = st1\<lparr>fetched := fetched st1 @ [url]\<rparr> in
                              case axios_get (length (fetched st1)) url of
                                Inl e \<Rightarrow> (proxy_failed p e, st2)
                              | Inr (bytes, header) \<Rightarrow>
                                  (let ct = (case header of
                                               Some h \<Rightarrow> if h = [] then ''image/jpeg'' else h
                                             | None \<Rightarrow> ''image/jpeg'')
                                   in (Sent (image_headers ct bytes ''MISS'') bytes,
                                       st2\<lparr>imageCache :=
                                             cache_set (now p) cacheKey
                                               \<lparr>img_data = bytes, contentType = ct\<rparr> 86400
                                               (imageCache st2)\<rparr>))))))"

section \<open>The documented failure envelope and a sample platform\<close>

text \<open>
  The failure envelope as the API documentation (docs/API.md) and the specification
  give it: \<open>success\<close> is false and \<open>error\<close> is an object with a \<open>code\<close> out of the
  fixed set and a \<open>message\<close>.
\<close>

definition error_codes :: "string list" where
  "error_codes =
     [''INVALID_REQUEST'', ''NASA_API_ERROR'', ''RATE_LIMIT_EXCEEDED'', ''INTERNAL_ERROR'',
      ''NOT_FOUND'', ''CACHE_ERROR'']"

definition documented_failure :: "(string \<times> jsval) list \<Rightarrow> bool" where
  "documented_failure body =
     (map_of body ''success'' = Some (JBool False) \<and>
      (case map_of body ''error'' of
         Some (JObj e) \<Rightarrow>
           (case map_of e ''code'' of Some (JStr c) \<Rightarrow> c \<in> set error_codes | _ \<Rightarrow> False) \<and>
           (case map_of e ''message'' of Some (JStr m) \<Rightarrow> True | _ \<Rightarrow> False)
       | _ \<Rightarrow> False))"

text \<open>
  The rule of the specification for the proxy: the host name is one of the allowed
  domains or ends with one.
\<close>

definition exact_or_suffix_match :: "string \<Rightarrow> bool" where
  "exact_or_suffix_match hostname =
     list_ex (\<lambda>domain. hostname = domain \<or> suffix domain hostname) allowedDomains"

text \<open>
  A platform for the concrete runs below: a process whose local time is UTC, at a given
  instant, with no environment variables set. Its URL parser covers the absolute
  \<open>https\<close> URLs of the runs, which have no credentials and no port: the host name is
  what stands between \<open>https://\<close> and the next slash, in lower case. Its number
  parsers cover the strings of decimal digits, its \<open>JSON.stringify\<close> the parameter
  objects whose values are booleans and strings without a character to escape, and its
  base64 encoding the strings of ASCII characters.
\<close>

definition json_value :: "jsval \<Rightarrow> string" where
  "json_value v =
     (case v of
        JStr s \<Rightarrow> CHR 0x22 # s @ [CHR 0x22]
      | JBool b \<Rightarrow> if b then ''true'' else ''false''
      | _ \<Rightarrow> ''null'')"

fun json_members :: "(string \<times> jsval) list \<Rightarrow> string" where
  "json_members [] = []"
| "json_members [(k, v)] = CHR 0x22 # k @ [CHR 0x22] @ '':'' @ json_value v"
| "json_members ((k, v) # m # ms) =
     CHR 0x22 # k @ [CHR 0x22] @ '':'' @ json_value v @ '','' @ json_members (m # ms)"

definition json_object :: "(string \<times> jsval) list \<Rightarrow> string" where
  "json_object ps = ''{'' @ json_members ps @ ''}''"

definition b64_char :: "nat \<Rightarrow> char" where
  "b64_char n =
     ''ABCDEFGHIJKLMNOPQRSTUVWXYZabcdefghijklmnopqrstuvwxyz0123456789+/'' ! (n mod 64)"

fun b64 :: "nat list \<Rightarrow> string" where
  "b64 [] = []"
| "b64 [a] = [b64_char (a div 4), b64_char (a mod 4 * 16), CHR ''='', CHR ''='']"
| "b64 [a, b] =
     [b64_char (a div 4), b64_char (a mod 4 * 16 + b div 16), b64_char (b mod 16 * 4),
      CHR ''='']"
| "b64 (a # b # c # rest) =
     [b64_char (a div 4), b64_char (a mod 4 * 16 + b div 16),
      b64_char (b mod 16 * 4 + c div 64), b64_char (c mod 64)] @ b64 rest"

definition base64_of :: "jsval \<Rightarrow> string" where
  "base64_of u = b64 (map of_char (the_string u))"

definition digits_number :: "string \<Rightarrow> int option" where
  "digits_number s = (if s \<noteq> [] \<and> list_all is_digit s then Some (Number_digits s) else None)"

definition https_hostname :: "jsval \<Rightarrow> string option" where
  "https_hostname u =
     (case u of
        JStr s \<Rightarrow>
          if prefix ''https://'' s \<and> takeWhile (\<lambda>c. c \<noteq> CHR ''/'') (drop 8 s) \<noteq> []
          then Some (toLowerCase (takeWhile (\<lambda>c. c \<noteq> CHR ''/'') (drop 8 s)))
          else None
      | _ \<Rightarrow> None)"

definition utc_platform :: "int \<Rightarrow> platform" where
  "utc_platform t =
     \<lparr>now = t, tz_offset = (\<lambda>i. 0), NODE_ENV = None, CACHE_TTL_SECONDS = None,
      Date_parse = (\<lambda>s. None),
      parseInt = (\<lambda>v. case v of JStr s \<Rightarrow> digits_number s | _ \<Rightarrow> None),
      parseFloat = (\<lambda>s. map_option of_int (digits_number s)),
      JSON_stringify = json_object, URL_hostname = https_hostname,
      base64 = base64_of, stack_frames = [], NASA_API_KEY = None\<rparr>"

text \<open>2024-06-01T12:00:00Z in milliseconds.\<close>

definition noon :: int where
  "noon = 1717243200000"

text \<open>
  The requests, upstreams and fetches of the concrete runs: a query string as the list
  of its parameters, upstreams that answer every request with an empty payload, one
  that answers with a single object, and a fetch that answers with three bytes.
\<close>

definition request :: "(string \<times> jsval) list \<Rightarrow> string \<Rightarrow> jsval" where
  "request ps k = (case map_of ps k of Some v \<Rightarrow> v | None \<Rightarrow> JUndefined)"

definition quiet_apod :: "jsval upstream" where
  "quiet_apod = \<lparr>http_get = (\<lambda>n e ps. Inr (JArr [])), truthy = (\<lambda>d. \<not> falsy d)\<rparr>"

definition quiet_feed :: "feed upstream" where
  "quiet_feed =
     \<lparr>http_get = (\<lambda>n e ps. Inr \<lparr>element_count = 0, near_earth_objects = []\<rparr>),
      truthy = (\<lambda>d. True)\<rparr>"

definition quiet_epic :: "epic_image list upstream" where
  "quiet_epic = \<lparr>http_get = (\<lambda>n e ps. Inr []), truthy = (\<lambda>d. True)\<rparr>"

definition apophis :: neo where
  "apophis =
     \<lparr>neo_name = ''99942 Apophis (2004 MN4)'', is_potentially_hazardous_asteroid = True,
      estimated_diameter_max = 0.68,
      close_approach_data =
        [\<lparr>close_approach_date = ''2036-03-27'', miss_distance_kilometers = ''46000000'',
          kilometers_per_hour = ''20000''\<rparr>,
         \<lparr>close_approach_date = ''2004-12-21'', miss_distance_kilometers = ''14400000'',
          kilometers_per_hour = ''29000''\<rparr>,
         \<lparr>close_approach_date = ''2029-04-13'', miss_distance_kilometers = ''38000'',
          kilometers_per_hour = ''26000''\<rparr>]\<rparr>"

definition apophis_upstream :: "neo upstream" where
  "apophis_upstream = \<lparr>http_get = (\<lambda>n e ps. Inr apophis), truthy = (\<lambda>d. True)\<rparr>"

definition three_bytes :: "nat \<Rightarrow> jsval \<Rightarrow> js_error + string \<times> string option" where
  "three_bytes n u = Inr (''abc'', None)"

text \<open>The response of \<open>GET /epic/images\<close> to a date in the future.\<close>

definition future_date_rejection :: "epic_out list response" where
  "future_date_rejection =
     Failure 400
       [(''success'', JBool False), (''error'', JStr ''Invalid date''),
        (''message'', JStr ''Date cannot be in the future'')]"

section \<open>Properties of the validators\<close>

lemma check_rule_appends:
  "check_rule params (es, cs) kr =
     (es @ fst (check_rule params ([], []) kr), cs @ snd (check_rule params ([], []) kr))"
  by (cases kr) (simp add: Let_def split: option.split)

lemma foldl_check_rule_appends:
  "foldl (check_rule params) (es, cs) rules =
     (es @ fst (foldl (check_rule params) ([], []) rules),
      cs @ snd (foldl (check_rule params) ([], []) rules))"
proof (induction rules arbitrary: es cs)
  case Nil
  show ?case by simp
next
  case (Cons kr rules)
  obtain es1 cs1 where step: "check_rule params ([], []) kr = (es1, cs1)"
    by (cases "check_rule params ([], []) kr")
  have here: "check_rule params (es, cs) kr = (es @ es1, cs @ cs1)"
    using check_rule_appends [of params es cs kr] step by simp
  show ?case
    using Cons.IH [of "es @ es1" "cs @ cs1"] Cons.IH [of es1 cs1] here step by simp
qed

lemma run_rules_append:
  "run_rules params (rs1 @ rs2) =
     (fst (run_rules params rs1) @ fst (run_rules params rs2),
      snd (run_rules params rs1) @ snd (run_rules params rs2))"
proof -
  obtain es cs where r1: "foldl (check_rule params) ([], []) rs1 = (es, cs)"
    by (cases "foldl (check_rule params) ([], []) rs1")
  show ?thesis
    using foldl_check_rule_appends [of params es cs rs2] r1 by (simp add: run_rules_def)
qed

lemma run_rules_blank:
  assumes "is_blank (params_get params key)"
  shows "run_rules params [(key, r)] =
           (if required r then [key @ '' is required''] else [], [])"
  using assms by (simp add: run_rules_def)

text \<open>
  C10. \<open>validateQueryParams\<close> treats the empty string as it treats undefined and
  null. Whatever rules stand before and after it, a rule whose parameter is blank
  contributes exactly the error \<open><key> is required\<close> when it is required and nothing
  when it is not, and in neither case is its validator called: the calls made are those
  of the other rules. The verdict \<open>isValid\<close> follows: with a blank required parameter
  the result is invalid, and a blank parameter that is not required is accepted, the
  result being valid exactly when the other rules find no error.
\<close>

theorem validateQueryParams_blank_is_absent:
  assumes "is_blank (params_get params key)"
  shows "errors (validateQueryParams params (rs1 @ (key, r) # rs2)) =
           errors (validateQueryParams params rs1)
             @ (if required r then [key @ '' is required''] else [])
             @ errors (validateQueryParams params rs2)
         \<and> validator_calls params (rs1 @ (key, r) # rs2) =
             validator_calls params rs1 @ validator_calls params rs2
         \<and> isValid (validateQueryParams params (rs1 @ (key, r) # rs2)) =
             (isValid (validateQueryParams params rs1) \<and> \<not> required r
              \<and> isValid (validateQueryParams params rs2))"
proof -
  have split: "rs1 @ (key, r) # rs2 = rs1 @ ([(key, r)] @ rs2)"
    by simp
  have mid: "run_rules params ([(key, r)] @ rs2) =
               ((if required r then [key @ '' is required''] else []) @ fst (run_rules params rs2),
                snd (run_rules params rs2))"
    using run_rules_append [of params "[(key, r)]" rs2] run_rules_blank [OF assms, of r]
    by simp
  have whole: "run_rules params (rs1 @ (key, r) # rs2) =
                 (fst (run_rules params rs1)
                    @ (if required r then [key @ '' is required''] else [])
                    @ fst (run_rules params rs2),
                  snd (run_rules params rs1) @ snd (run_rules params rs2))"
    unfolding split using run_rules_append [of params rs1 "[(key, r)] @ rs2"] mid by simp
  show ?thesis
    using whole by (auto simp: validateQueryParams_def validator_calls_def Let_def)
qed

theorem validateQueryParams_blank_is_absent_witness:
  "is_blank (params_get [(''count'', JStr ''abc''), (''date'', JStr [])] ''date'')
   \<and> validateQueryParams [(''count'', JStr ''abc''), (''date'', JStr [])]
        [(''date'', \<lparr>required = False, validator = Some (\<lambda>v. False), message = None\<rparr>)]
       = \<lparr>isValid = True, errors = []\<rparr>
   \<and> validator_calls [(''count'', JStr ''abc''), (''date'', JStr [])]
        [(''date'', \<lparr>required = False, validator = Some (\<lambda>v. False), message = None\<rparr>)]
       = []
   \<and> validateQueryParams [(''count'', JStr ''abc''), (''date'', JStr [])]
        [(''date'', \<lparr>required = True, validator = Some (\<lambda>v. False), message = None\<rparr>)]
       = \<lparr>isValid = False, errors = [''date is required'']\<rparr>
   \<and> validateQueryParams [(''count'', JStr ''abc''), (''date'', JStr [])]
        [(''count'', \<lparr>required = False, validator = Some (\<lambda>v. False),
                      message = Some ''Invalid count''\<rparr>),
         (''date'', \<lparr>required = True, validator = Some (\<lambda>v. False), message = None\<rparr>)]
       = \<lparr>isValid = False, errors = [''Invalid count'', ''date is required'']\<rparr>
   \<and> validator_calls [(''count'', JStr ''abc''), (''date'', JStr [])]
        [(''count'', \<lparr>required = False, validator = Some (\<lambda>v. False),
                      message = Some ''Invalid count''\<rparr>),
         (''date'', \<lparr>required = False, validator = Some (\<lambda>v. False), message = None\<rparr>)]
       = [(''count'', JStr ''abc'')]"
proof -
  let ?params = "[(''count'', JStr ''abc''), (''date'', JStr [])]"
  let ?c = "(''count'', \<lparr>required = False, validator = Some (\<lambda>v. False),
                        message = Some ''Invalid count''\<rparr>)"
  let ?optional = "\<lparr>required = False, validator = Some (\<lambda>v. False), message = None\<rparr>"
  let ?needed = "\<lparr>required = True, validator = Some (\<lambda>v. False), message = None\<rparr>"
  have blank: "is_blank (params_get ?params ''date'')"
    by (simp add: is_blank_def params_get_def)
  have count_only: "run_rules ?params [?c] = ([''Invalid count''], [(''count'', JStr ''abc'')])"
    by (simp add: run_rules_def params_get_def is_blank_def rule_error_def)
  have none: "run_rules ?params [] = ([], [])"
    by (simp add: run_rules_def)
  have whole: "\<And>v. v = \<lparr>isValid = isValid v, errors = errors v\<rparr>"
    by simp
  have lone_optional:
    "validateQueryParams ?params [(''date'', ?optional)] = \<lparr>isValid = True, errors = []\<rparr>
     \<and> validator_calls ?params [(''date'', ?optional)] = []"
    using validateQueryParams_blank_is_absent [OF blank, of "[]" ?optional "[]"] none
      whole [of "validateQueryParams ?params [(''date'', ?optional)]"]
    by (simp add: validateQueryParams_def validator_calls_def)
  have lone_needed:
    "validateQueryParams ?params [(''date'', ?needed)]
       = \<lparr>isValid = False, errors = [''date is required'']\<rparr>"
    using validateQueryParams_blank_is_absent [OF blank, of "[]" ?needed "[]"] none
      whole [of "validateQueryParams ?params [(''date'', ?needed)]"]
    by (simp add: validateQueryParams_def validator_calls_def)
  have after_count:
    "validateQueryParams ?params [?c, (''date'', ?needed)]
       = \<lparr>isValid = False, errors = [''Invalid count'', ''date is required'']\<rparr>
     \<and> validator_calls ?params [?c, (''date'', ?optional)] = [(''count'', JStr ''abc'')]"
    using validateQueryParams_blank_is_absent [OF blank, of "[?c]" ?needed "[]"]
      validateQueryParams_blank_is_absent [OF blank, of "[?c]" ?optional "[]"]
      count_only none
      whole [of "validateQueryParams ?params [?c, (''date'', ?needed)]"]
    by (simp add: validateQueryParams_def validator_calls_def)
  show ?thesis
    using blank lone_optional lone_needed after_count by simp
qed

section \<open>Concrete dates on the sample platform\<close>

lemma utc_fields:
  "now (utc_platform t) = t"
  "CACHE_TTL_SECONDS (utc_platform t) = None"
  "NODE_ENV (utc_platform t) = None"
  "JSON_stringify (utc_platform t) = json_object"
  "URL_hostname (utc_platform t) = https_hostname"
  "base64 (utc_platform t) = base64_of"
  "parseFloat (utc_platform t) x = map_option of_int (digits_number x)"
  by (simp_all add: utc_platform_def)

lemma jan01: "validateDate (utc_platform noon) (JStr ''2024-01-01'')"
  by code_simp

lemma jan07: "validateDate (utc_platform noon) (JStr ''2024-01-07'')"
  by code_simp

lemma jan08: "validateDate (utc_platform noon) (JStr ''2024-01-08'')"
  by code_simp

lemma jan09: "validateDate (utc_platform noon) (JStr ''2024-01-09'')"
  by code_simp

lemma apr10: "validateDate (utc_platform noon) (JStr ''2024-04-10'')"
  by code_simp

lemma jan01_ms: "new_Date (utc_platform noon) ''2024-01-01'' = Some 1704067200000"
  by code_simp

lemma jan07_ms: "new_Date (utc_platform noon) ''2024-01-07'' = Some 1704585600000"
  by code_simp

lemma jan08_ms: "new_Date (utc_platform noon) ''2024-01-08'' = Some 1704672000000"
  by code_simp

lemma jan09_ms: "new_Date (utc_platform noon) ''2024-01-09'' = Some 1704758400000"
  by code_simp

lemma apr10_ms: "new_Date (utc_platform noon) ''2024-04-10'' = Some 1712707200000"
  by code_simp

lemma noon_stamp: "toISOString noon = ''2024-06-01T12:00:00.000Z''"
  by code_simp

lemma show_seven: "show_int 7 = ''7''"
  by code_simp

section \<open>Where the code departs from its specification\<close>

text \<open>
  C5. \<open>validateDateRange\<close> compares the difference of the two dates in days with
  \<open>maxDays\<close>, not the inclusive count it returns as \<open>days\<close>: with \<open>maxDays = 7\<close> the
  seven days from 2024-01-01 to 2024-01-07 are valid with \<open>days: 7\<close>, the eight days to
  2024-01-08 are valid too, with \<open>days: 8\<close>, and only the nine days to 2024-01-09 are
  refused.
\<close>

theorem validateDateRange_boundary:
  "validateDateRange (utc_platform noon) (JStr ''2024-01-01'') (JStr ''2024-01-07'') 7
     = Range_valid (Some 7)
   \<and> validateDateRange (utc_platform noon) (JStr ''2024-01-01'') (JStr ''2024-01-08'') 7
     = Range_valid (Some 8)
   \<and> validateDateRange (utc_platform noon) (JStr ''2024-01-01'') (JStr ''2024-01-09'') 7
     = Range_invalid ''Date range cannot exceed 7 days''"
  by (simp add: validateDateRange_def Let_def jan01 jan07 jan08 jan09 jan01_ms jan07_ms jan08_ms
        jan09_ms msPerDay_def show_seven)

text \<open>
  C6. \<open>validateCamera\<close> throws a TypeError on a rover that is not a string, and on
  the rover name \<open>constructor\<close>, which the catalogue inherits from \<open>Object.prototype\<close>.
\<close>

theorem validateCamera_throws:
  "validateCamera (JStr ''FHAZ'') (JStr ''constructor'') VALID_CAMERAS = Inl TypeError
   \<and> validateCamera (JStr ''FHAZ'') JUndefined VALID_CAMERAS = Inl TypeError"
  by code_simp

lemma flat_head:
  "\<not> documented_failure ((''success'', a) # (''error'', JStr b) # rest)"
  by (simp add: documented_failure_def)

lemma errorHandler_shape:
  "\<exists>st a b rest. errorHandler p err = (st, (''success'', a) # (''error'', JStr b) # rest)"
  unfolding errorHandler_def by (simp split: option.split prod.split)

lemma validateDate_short: "length s \<noteq> 10 \<Longrightarrow> \<not> validateDate p (JStr s)"
  by (simp add: validateDate_def dateRegex_def)

text \<open>
  C2. The failure bodies are flat: \<open>error\<close> is a string and \<open>message\<close> stands beside
  it. On every platform and in every state \<open>GET /apod?date=yesterday\<close> is answered with
  such a body, which is not the documented envelope, and no body of the error
  middleware is the documented envelope either.
\<close>

theorem failure_bodies_are_flat:
  "apod_root p up (request [(''date'', JStr ''yesterday'')]) s =
     (Failure 400
        [(''success'', JBool False), (''error'', JStr ''Invalid date format''),
         (''message'', JStr ''Date must be in YYYY-MM-DD format'')], s)
   \<and> \<not> documented_failure
        [(''success'', JBool False), (''error'', JStr ''Invalid date format''),
         (''message'', JStr ''Date must be in YYYY-MM-DD format'')]
   \<and> \<not> documented_failure (snd (errorHandler p err))"
proof -
  have bad: "\<not> validateDate p (JStr ''yesterday'')"
    by (rule validateDate_short) simp
  have first: "apod_root p up (request [(''date'', JStr ''yesterday'')]) s =
     (Failure 400
        [(''success'', JBool False), (''error'', JStr ''Invalid date format''),
         (''message'', JStr ''Date must be in YYYY-MM-DD format'')], s)"
    using bad by (simp add: apod_root_def request_def Let_def)
  obtain st a b rest where
    shape: "errorHandler p err = (st, (''success'', a) # (''error'', JStr b) # rest)"
    using errorHandler_shape [of p err] by blast
  have third: "\<not> documented_failure (snd (errorHandler p err))"
    using shape flat_head [of a b rest] by simp
  show ?thesis
    using first flat_head third by simp
qed

text \<open>
  C1. The handlers compare the difference of the two dates in days with the limit.
  \<open>GET /neows/feed\<close> from 2024-01-01 to 2024-01-08, eight days inclusive, is sent
  upstream and answered with \<open>days: 8\<close>; so is \<open>GET /apod/range\<close> from 2024-01-01 to
  2024-04-10, 101 days inclusive. Each run is shown as the response with the requests
  sent upstream.
\<close>

theorem date_window_admits_one_day_more:
  "(case neows_feed (utc_platform noon) quiet_feed
           (request [(''start_date'', JStr ''2024-01-01''), (''end_date'', JStr ''2024-01-08'')])
           fresh_service of (r, s') \<Rightarrow> (r, calls s'))
     = (Success
          \<lparr>feed_data = \<lparr>element_count = 0, near_earth_objects = []\<rparr>,
           summary = \<lparr>total_objects = 0, potentially_hazardous = 0, close_approaches = 0,
                      largest_object = None, closest_approach = None\<rparr>\<rparr>
          [(''endpoint'', JStr ''neows/feed''), (''start_date'', JStr ''2024-01-01''),
           (''end_date'', JStr ''2024-01-08''), (''days'', JNum 8), (''detailed'', JBool False),
           (''cached'', JBool True), (''timestamp'', JStr ''2024-06-01T12:00:00.000Z'')],
        [(''/neo/rest/v1/feed'',
          [(''detailed_destruction'', JBool False), (''start_date'', JStr ''2024-01-01''),
           (''end_date'', JStr ''2024-01-08'')])])
   \<and> (case apod_range (utc_platform noon) quiet_apod
           (request [(''start_date'', JStr ''2024-01-01''), (''end_date'', JStr ''2024-04-10'')])
           fresh_service of (r, s') \<Rightarrow> (r, calls s'))
     = (Success (JArr [])
          [(''endpoint'', JStr ''apod/range''), (''start_date'', JStr ''2024-01-01''),
           (''end_date'', JStr ''2024-04-10''), (''days'', JNum 101), (''cached'', JBool True),
           (''timestamp'', JStr ''2024-06-01T12:00:00.000Z'')],
        [(''/planetary/apod'',
          [(''start_date'', JStr ''2024-01-01''), (''end_date'', JStr ''2024-04-10'')])])"
proof -
  have feed: "(case neows_feed (utc_platform noon) quiet_feed
           (request [(''start_date'', JStr ''2024-01-01''), (''end_date'', JStr ''2024-01-08'')])
           fresh_service of (r, s') \<Rightarrow> (r, calls s'))
     = (Success
          \<lparr>feed_data = \<lparr>element_count = 0, near_earth_objects = []\<rparr>,
           summary = \<lparr>total_objects = 0, potentially_hazardous = 0, close_approaches = 0,
                      largest_object = None, closest_approach = None\<rparr>\<rparr>
          [(''endpoint'', JStr ''neows/feed''), (''start_date'', JStr ''2024-01-01''),
           (''end_date'', JStr ''2024-01-08''), (''days'', JNum 8), (''detailed'', JBool False),
           (''cached'', JBool True), (''timestamp'', JStr ''2024-06-01T12:00:00.000Z'')],
        [(''/neo/rest/v1/feed'',
          [(''detailed_destruction'', JBool False), (''start_date'', JStr ''2024-01-01''),
           (''end_date'', JStr ''2024-01-08'')])])"
    by (simp add: neows_feed_def request_def Let_def jan01 jan08 jan01_ms jan08_ms noon_stamp
          utc_fields msPerDay_def js_days_def getNearEarthObjects_def present_def
          makeRequest_def cache_get_def fresh_service_def empty_cache_def fetch_upstream_def
          quiet_feed_def assess_def)
  have range: "(case apod_range (utc_platform noon) quiet_apod
           (request [(''start_date'', JStr ''2024-01-01''), (''end_date'', JStr ''2024-04-10'')])
           fresh_service of (r, s') \<Rightarrow> (r, calls s'))
     = (Success (JArr [])
          [(''endpoint'', JStr ''apod/range''), (''start_date'', JStr ''2024-01-01''),
           (''end_date'', JStr ''2024-04-10''), (''days'', JNum 101), (''cached'', JBool True),
           (''timestamp'', JStr ''2024-06-01T12:00:00.000Z'')],
        [(''/planetary/apod'',
          [(''start_date'', JStr ''2024-01-01''), (''end_date'', JStr ''2024-04-10'')])])"
    by (simp add: apod_range_def request_def Let_def jan01 apr10 jan01_ms apr10_ms noon_stamp
          utc_fields msPerDay_def js_days_def getAPOD_def present_def
          makeRequest_def cache_get_def fresh_service_def empty_cache_def fetch_upstream_def
          quiet_apod_def)
  show ?thesis
    using feed range by (rule conjI)
qed

lemma apod_first_run:
  "apod_root (utc_platform noon) quiet_apod (request [(''date'', JStr ''2024-01-01'')]) fresh_service
     = (Success (JArr [])
          [(''endpoint'', JStr ''apod''), (''cached'', JBool True),
           (''timestamp'', JStr ''2024-06-01T12:00:00.000Z'')],
        \<lparr>cache = \<lparr>entries = (\<lambda>k. None)(''apod_'' @ json_object [(''date'', JStr ''2024-01-01'')]
                                     \<mapsto> (JArr [], noon + 3600000)),
                   hits = 0, misses = 1\<rparr>,
         calls = [(''/planetary/apod'', [(''date'', JStr ''2024-01-01'')])]\<rparr>)"
  by (simp add: apod_root_def request_def Let_def jan01 noon_stamp utc_fields getAPOD_def
        present_def makeRequest_def cache_get_def cache_set_def default_ttl_def fresh_service_def
        empty_cache_def fetch_upstream_def quiet_apod_def)

lemma apod_second_run:
  "apod_root (utc_platform noon) quiet_apod (request [(''date'', JStr ''2024-01-01'')])
     \<lparr>cache = \<lparr>entries = (\<lambda>k. None)(''apod_'' @ json_object [(''date'', JStr ''2024-01-01'')]
                                     \<mapsto> (JArr [], noon + 3600000)),
                   hits = 0, misses = 1\<rparr>,
         calls = [(''/planetary/apod'', [(''date'', JStr ''2024-01-01'')])]\<rparr>
     = (Success (JArr [])
          [(''endpoint'', JStr ''apod''), (''cached'', JBool True),
           (''timestamp'', JStr ''2024-06-01T12:00:00.000Z'')],
        \<lparr>cache = \<lparr>entries = (\<lambda>k. None)(''apod_'' @ json_object [(''date'', JStr ''2024-01-01'')]
                                     \<mapsto> (JArr [], noon + 3600000)),
                   hits = 1, misses = 1\<rparr>,
         calls = [(''/planetary/apod'', [(''date'', JStr ''2024-01-01'')])]\<rparr>)"
  by (simp add: apod_root_def request_def Let_def jan01 noon_stamp utc_fields getAPOD_def
        present_def makeRequest_def cache_get_def cache_set_def default_ttl_def
        quiet_apod_def)

text \<open>
  C4. \<open>meta.cached\<close> is the constant \<open>true\<close>. The first \<open>GET /apod?date=2024-01-01\<close>
  on an empty cache misses the cache and is sent upstream, the second is served from
  the cache without an upstream request; both answer with the same data and with
  \<open>cached: true\<close>. Each run is shown as the response with the requests sent upstream
  so far and the cache's hit and miss counters.
\<close>

theorem cached_flag_is_constant:
  "(case apod_root (utc_platform noon) quiet_apod (request [(''date'', JStr ''2024-01-01'')])
           fresh_service of
      (r, s') \<Rightarrow> (r, calls s', hits (cache s'), misses (cache s')))
     = (Success (JArr [])
          [(''endpoint'', JStr ''apod''), (''cached'', JBool True),
           (''timestamp'', JStr ''2024-06-01T12:00:00.000Z'')],
        [(''/planetary/apod'', [(''date'', JStr ''2024-01-01'')])], 0, 1)
   \<and> (case apod_root (utc_platform noon) quiet_apod (request [(''date'', JStr ''2024-01-01'')])
           (snd (apod_root (utc_platform noon) quiet_apod
                   (request [(''date'', JStr ''2024-01-01'')]) fresh_service)) of
      (r, s') \<Rightarrow> (r, calls s', hits (cache s'), misses (cache s')))
     = (Success (JArr [])
          [(''endpoint'', JStr ''apod''), (''cached'', JBool True),
           (''timestamp'', JStr ''2024-06-01T12:00:00.000Z'')],
        [(''/planetary/apod'', [(''date'', JStr ''2024-01-01'')])], 1, 1)"
  by (simp only: apod_first_run snd_conv apod_second_run) simp

lemma foreign_host:
  "https_hostname (JStr ''https://apod.nasa.gov.evil.example.com/x.jpg'')
     = Some ''apod.nasa.gov.evil.example.com''"
  by code_simp

lemma foreign_host_allowed: "isAllowedDomain ''apod.nasa.gov.evil.example.com''"
  by code_simp

lemma foreign_host_no_match: "\<not> exact_or_suffix_match ''apod.nasa.gov.evil.example.com''"
  by code_simp

lemma evil_host:
  "https_hostname (JStr ''https://evil.example.com/x.jpg'') = Some ''evil.example.com''"
  by code_simp

lemma evil_host_refused: "\<not> isAllowedDomain ''evil.example.com''"
  by code_simp

lemma apod_host:
  "https_hostname (JStr ''https://apod.nasa.gov/x.jpg'') = Some ''apod.nasa.gov''"
  by code_simp

lemma apod_host_allowed: "isAllowedDomain ''apod.nasa.gov''"
  by code_simp

lemma three: "show_nat (Suc (Suc (Suc 0))) = ''3''"
  by code_simp

text \<open>
  C3. The proxy tests \<open>hostname.includes(domain)\<close>, so a host name that merely
  contains an allowed domain passes: \<open>apod.nasa.gov.evil.example.com\<close> is neither an
  allowed domain nor ends with one, and its image is fetched. The two examples of the
  claim behave as it says: \<open>evil.example.com\<close> is refused with 403 before any fetch
  and \<open>apod.nasa.gov\<close> is fetched. Each run is shown as the response with the URLs
  fetched.
\<close>

theorem proxy_admits_foreign_host:
  "URL_hostname (utc_platform noon) (JStr ''https://apod.nasa.gov.evil.example.com/x.jpg'')
     = Some ''apod.nasa.gov.evil.example.com''
   \<and> \<not> exact_or_suffix_match ''apod.nasa.gov.evil.example.com''
   \<and> (case proxy_image (utc_platform noon) three_bytes
              (request [(''url'', JStr ''https://apod.nasa.gov.evil.example.com/x.jpg'')])
              fresh_proxy of (r, st) \<Rightarrow> (r, fetched st))
       = (Sent [(''Content-Type'', ''image/jpeg''), (''Content-Length'', ''3''),
                (''Cache-Control'', ''public, max-age=86400''), (''X-Cache'', ''MISS'')] ''abc'',
          [JStr ''https://apod.nasa.gov.evil.example.com/x.jpg''])
   \<and> (case proxy_image (utc_platform noon) three_bytes
              (request [(''url'', JStr ''https://evil.example.com/x.jpg'')])
              fresh_proxy of (r, st) \<Rightarrow> (r, fetched st))
       = (Json 403 [(''success'', JBool False), (''error'', JStr ''Forbidden domain''),
                    (''message'', JStr ''Only NASA domains are allowed'')], [])
   \<and> (case proxy_image (utc_platform noon) three_bytes
              (request [(''url'', JStr ''https://apod.nasa.gov/x.jpg'')])
              fresh_proxy of (r, st) \<Rightarrow> (r, fetched st))
       = (Sent [(''Content-Type'', ''image/jpeg''), (''Content-Length'', ''3''),
                (''Cache-Control'', ''public, max-age=86400''), (''X-Cache'', ''MISS'')] ''abc'',
          [JStr ''https://apod.nasa.gov/x.jpg''])"
  by (simp add: proxy_image_def request_def Let_def utc_fields foreign_host foreign_host_allowed
        foreign_host_no_match evil_host evil_host_refused apod_host apod_host_allowed
        cache_get_def fresh_proxy_def empty_cache_def three_bytes_def image_headers_def three)

section \<open>The future-date guard of the EPIC route\<close>

lemma y2999: "validateDate (utc_platform noon) (JStr ''2999-01-01'')"
  by code_simp

lemma y2999_ms: "new_Date (utc_platform noon) ''2999-01-01'' = Some 32472144000000"
  by code_simp

lemma bogus_type: "\<not> (toLowerCase ''bogus'' \<in> set VALID_TYPES)"
  by code_simp

lemma Natural_type: "toLowerCase ''Natural'' \<in> set VALID_TYPES"
  by code_simp

lemma natural_type: "toLowerCase ''natural'' \<in> set VALID_TYPES"
  by code_simp

lemma types_joined: "join_comma VALID_TYPES = ''natural, enhanced''"
  by code_simp

text \<open>
  C9, as stated, fails on a request whose \<open>type\<close> is not valid: the handler tests the
  type before the date and answers a future date with the failure for the type.
\<close>

theorem epic_images_checks_type_first:
  "validateDate (utc_platform noon) (JStr ''2999-01-01'')
   \<and> date_gt (new_Date (utc_platform noon) ''2999-01-01'') (Some (now (utc_platform noon)))
   \<and> fst (epic_images (utc_platform noon) quiet_epic
            (request [(''date'', JStr ''2999-01-01''), (''type'', JStr ''bogus'')]) fresh_service)
       = Failure 400
           [(''success'', JBool False), (''error'', JStr ''Invalid type''),
            (''message'', JStr ''Type must be one of: natural, enhanced'')]
   \<and> fst (epic_images (utc_platform noon) quiet_epic
            (request [(''date'', JStr ''2999-01-01''), (''type'', JStr ''bogus'')]) fresh_service)
       \<noteq> future_date_rejection"
proof -
  have after: "date_gt (new_Date (utc_platform noon) ''2999-01-01'')
                 (Some (now (utc_platform noon)))"
  proof -
    have "noon < 32472144000000"
      by (simp add: noon_def)
    then show ?thesis
      by (simp add: y2999_ms utc_fields)
  qed
  show ?thesis
    using y2999 after
    by (simp add: epic_images_def request_def Let_def bogus_type types_joined
          future_date_rejection_def)
qed

lemma validateDate_nonempty: "validateDate p (JStr d) \<Longrightarrow> d \<noteq> []"
  by (auto simp: validateDate_def)

lemma later_day_later_instant:
  fixes t n :: int
  assumes "n div msPerDay < t div msPerDay"
  shows "n < t"
proof (rule ccontr)
  assume "\<not> n < t"
  then have "t \<le> n" by simp
  then have "t div msPerDay \<le> n div msPerDay"
    by (rule zdiv_mono1) (simp add: msPerDay_def)
  with assms show False by simp
qed

text \<open>
  C9, amended. When \<open>type\<close> is absent or a string that in lower case is \<open>natural\<close>
  or \<open>enhanced\<close>, and \<open>date\<close> is a string that \<open>validateDate\<close> accepts and whose
  day is later than the current UTC day, \<open>GET /epic/images\<close> answers 400 with
  \<open>Date cannot be in the future\<close> and leaves the service as it was: no upstream
  request, no cache access.
\<close>

theorem epic_images_future_date:
  assumes type_ok: "query ''type'' = JUndefined
                    \<or> (\<exists>t. query ''type'' = JStr t \<and> toLowerCase t \<in> set VALID_TYPES)"
    and date: "query ''date'' = JStr d"
    and valid: "validateDate p (JStr d)"
    and time: "new_Date p d = Some t"
    and later: "now p div msPerDay < t div msPerDay"
  shows "epic_images p up query s = (future_date_rejection, s)"
proof -
  have nonempty: "d \<noteq> []"
    using valid by (rule validateDate_nonempty)
  have after: "date_gt (new_Date p d) (Some (now p))"
    using time later_day_later_instant [OF later] by simp
  from type_ok show ?thesis
  proof
    assume "query ''type'' = JUndefined"
    then show ?thesis
      using date valid nonempty after natural_type
      by (simp add: epic_images_def Let_def future_date_rejection_def)
  next
    assume "\<exists>t. query ''type'' = JStr t \<and> toLowerCase t \<in> set VALID_TYPES"
    then obtain ty where "query ''type'' = JStr ty" and "toLowerCase ty \<in> set VALID_TYPES"
      by blast
    then show ?thesis
      using date valid nonempty after
      by (simp add: epic_images_def Let_def future_date_rejection_def)
  qed
qed

theorem epic_images_future_date_witness:
  "validateDate (utc_platform noon) (JStr ''2999-01-01'')
   \<and> new_Date (utc_platform noon) ''2999-01-01'' = Some 32472144000000
   \<and> now (utc_platform noon) div msPerDay < 32472144000000 div msPerDay
   \<and> epic_images (utc_platform noon) quiet_epic
        (request [(''date'', JStr ''2999-01-01''), (''type'', JStr ''Natural'')]) fresh_service
      = (future_date_rejection, fresh_service)"
proof -
  let ?q = "request [(''date'', JStr ''2999-01-01''), (''type'', JStr ''Natural'')]"
  have type_ok: "?q ''type'' = JUndefined
                 \<or> (\<exists>t. ?q ''type'' = JStr t \<and> toLowerCase t \<in> set VALID_TYPES)"
    using Natural_type by (simp add: request_def)
  have date: "?q ''date'' = JStr ''2999-01-01''"
    by (simp add: request_def)
  have later: "now (utc_platform noon) div msPerDay < 32472144000000 div msPerDay"
    by (simp add: utc_fields noon_def msPerDay_def)
  show ?thesis
    using y2999 y2999_ms later
      epic_images_future_date [OF type_ok date y2999 y2999_ms later, of quiet_epic fresh_service]
    by simp
qed

section \<open>The analysis of a single object\<close>

lemma categorizeSize_bands:
  "(categorizeSize d = ''TINY'') = (d < 0.001)"
  "(categorizeSize d = ''SMALL'') = (0.001 \<le> d \<and> d < 0.01)"
  "(categorizeSize d = ''MEDIUM'') = (0.01 \<le> d \<and> d < 0.1)"
  "(categorizeSize d = ''LARGE'') = (0.1 \<le> d \<and> d < 1)"
  "(categorizeSize d = ''MASSIVE'') = (1 \<le> d)"
  by (auto simp: categorizeSize_def)

lemma in_future_iff:
  "in_future p a = (\<exists>t. approach_time p a = Some t \<and> now p < t)"
  by (cases "approach_time p a") (simp_all add: in_future_def)

lemma sort_time_Some: "approach_time p a = Some t \<Longrightarrow> sort_time p a = t"
  by (simp add: sort_time_def)

lemma futureApproaches_set:
  "set (futureApproaches p data) = {a \<in> set (close_approach_data data). in_future p a}"
  by (simp add: futureApproaches_def)

lemma futureApproaches_sorted:
  "sorted (map (sort_time p) (futureApproaches p data))"
  by (simp add: futureApproaches_def)

lemma futureApproaches_head:
  assumes "futureApproaches p data = a # rest"
  shows "a \<in> set (close_approach_data data)"
    and "in_future p a"
    and "b \<in> set (close_approach_data data) \<Longrightarrow> in_future p b \<Longrightarrow> sort_time p a \<le> sort_time p b"
proof -
  have mem: "a \<in> set (futureApproaches p data)"
    using assms by simp
  then show "a \<in> set (close_approach_data data)" and "in_future p a"
    by (simp_all add: futureApproaches_set)
  assume "b \<in> set (close_approach_data data)" and "in_future p b"
  then have "b \<in> set (a # rest)"
    using futureApproaches_set [of p data] assms by simp
  moreover have "sorted (map (sort_time p) (a # rest))"
    using futureApproaches_sorted [of p data] assms by simp
  ultimately show "sort_time p a \<le> sort_time p b"
    by auto
qed

lemma futureApproaches_empty:
  assumes "futureApproaches p data = []" and "a \<in> set (close_approach_data data)"
  shows "\<not> in_future p a"
proof
  assume "in_future p a"
  then have "a \<in> set (futureApproaches p data)"
    using assms(2) by (simp add: futureApproaches_set)
  then show False
    using assms(1) by simp
qed

lemma neows_object_Success:
  assumes "fst (neows_object p up id' s) = Success out meta"
  shows "\<exists>data. out = \<lparr>neo_data = data, analysed = analyse p data\<rparr>"
  using assms
  by (auto simp: neows_object_def next_error_def split: jsval.splits if_splits prod.splits sum.splits)

text \<open>
  C7. Whenever \<open>GET /neows/object/:id\<close> succeeds, the analysis it returns beside the
  object has \<open>risk_level\<close> HIGH exactly for a hazardous object and LOW otherwise; its
  \<open>size_category\<close> is TINY, SMALL, MEDIUM, LARGE or MASSIVE exactly in the bands
  below 0.001, 0.01, 0.1 and 1 km and from 1 km on; and \<open>next_approach\<close> is null
  exactly when no close approach has a date after now, and is otherwise made of a close
  approach whose date is after now and not later than that of any other such approach.
\<close>

theorem neows_object_analysis:
  assumes "fst (neows_object p up id' s) = Success out meta"
  shows "risk_level (analysed out)
           = (if is_potentially_hazardous_asteroid (neo_data out) then ''HIGH'' else ''LOW'')
       \<and> (size_category (analysed out) = ''TINY'')
           = (estimated_diameter_max (neo_data out) < 0.001)
       \<and> (size_category (analysed out) = ''SMALL'')
           = (0.001 \<le> estimated_diameter_max (neo_data out)
              \<and> estimated_diameter_max (neo_data out) < 0.01)
       \<and> (size_category (analysed out) = ''MEDIUM'')
           = (0.01 \<le> estimated_diameter_max (neo_data out)
              \<and> estimated_diameter_max (neo_data out) < 0.1)
       \<and> (size_category (analysed out) = ''LARGE'')
           = (0.1 \<le> estimated_diameter_max (neo_data out)
              \<and> estimated_diameter_max (neo_data out) < 1)
       \<and> (size_category (analysed out) = ''MASSIVE'')
           = (1 \<le> estimated_diameter_max (neo_data out))
       \<and> (case next_approach (analysed out) of
             None \<Rightarrow>
               \<forall>a \<in> set (close_approach_data (neo_data out)).
                 \<forall>t. approach_time p a = Some t \<longrightarrow> t \<le> now p
           | Some n \<Rightarrow>
               \<exists>a \<in> set (close_approach_data (neo_data out)).
                 \<exists>t. approach_time p a = Some t \<and> now p < t
                   \<and> n = \<lparr>date_of = close_approach_date a,
                           distance_km = parseFloat p (miss_distance_kilometers a),
                           velocity_kmh = parseFloat p (kilometers_per_hour a)\<rparr>
                   \<and> (\<forall>b \<in> set (close_approach_data (neo_data out)).
                         \<forall>u. approach_time p b = Some u \<and> now p < u \<longrightarrow> t \<le> u))"
proof -
  obtain data where out: "out = \<lparr>neo_data = data, analysed = analyse p data\<rparr>"
    using neows_object_Success [OF assms] by blast
  have risk: "risk_level (analyse p data)
                = (if is_potentially_hazardous_asteroid data then ''HIGH'' else ''LOW'')"
    by (simp add: analyse_def)
  have size: "size_category (analyse p data) = categorizeSize (estimated_diameter_max data)"
    by (simp add: analyse_def)
  have nxt: "(case next_approach (analyse p data) of
             None \<Rightarrow>
               \<forall>a \<in> set (close_approach_data data).
                 \<forall>t. approach_time p a = Some t \<longrightarrow> t \<le> now p
           | Some n \<Rightarrow>
               \<exists>a \<in> set (close_approach_data data).
                 \<exists>t. approach_time p a = Some t \<and> now p < t
                   \<and> n = \<lparr>date_of = close_approach_date a,
                           distance_km = parseFloat p (miss_distance_kilometers a),
                           velocity_kmh = parseFloat p (kilometers_per_hour a)\<rparr>
                   \<and> (\<forall>b \<in> set (close_approach_data data).
                         \<forall>u. approach_time p b = Some u \<and> now p < u \<longrightarrow> t \<le> u))"
  proof (cases "futureApproaches p data")
    case Nil
    have none: "next_approach (analyse p data) = None"
      using Nil by (simp add: analyse_def)
    have "\<forall>a \<in> set (close_approach_data data). \<forall>t. approach_time p a = Some t \<longrightarrow> t \<le> now p"
    proof (intro ballI allI impI)
      fix a t
      assume "a \<in> set (close_approach_data data)" and t: "approach_time p a = Some t"
      then have "\<not> in_future p a"
        using futureApproaches_empty [OF Nil] by blast
      then show "t \<le> now p"
        using t by (simp add: in_future_iff)
    qed
    then show ?thesis
      using none by simp
  next
    case (Cons a rest)
    have some: "next_approach (analyse p data)
                  = Some \<lparr>date_of = close_approach_date a,
                          distance_km = parseFloat p (miss_distance_kilometers a),
                          velocity_kmh = parseFloat p (kilometers_per_hour a)\<rparr>"
      using Cons by (simp add: analyse_def)
    have mem: "a \<in> set (close_approach_data data)"
      using futureApproaches_head(1) [OF Cons] .
    obtain t where t: "approach_time p a = Some t" and after: "now p < t"
      using futureApproaches_head(2) [OF Cons] by (auto simp: in_future_iff)
    have least: "\<forall>b \<in> set (close_approach_data data).
                   \<forall>u. approach_time p b = Some u \<and> now p < u \<longrightarrow> t \<le> u"
    proof (intro ballI allI impI)
      fix b u
      assume b: "b \<in> set (close_approach_data data)"
        and u: "approach_time p b = Some u \<and> now p < u"
      then have "in_future p b"
        by (auto simp: in_future_iff)
      then have "sort_time p a \<le> sort_time p b"
        using futureApproaches_head(3) [OF Cons b] by simp
      then show "t \<le> u"
        using t u by (simp add: sort_time_Some)
    qed
    show ?thesis
      unfolding some using mem t after least by auto
  qed
  have nd: "neo_data out = data" and an: "analysed out = analyse p data"
    using out by simp_all
  show ?thesis
    unfolding nd an using risk size nxt by (simp add: categorizeSize_bands)
qed

lemma y2029: "new_Date (utc_platform noon) ''2029-04-13'' = Some 1870732800000"
  by code_simp

lemma y2036: "new_Date (utc_platform noon) ''2036-03-27'' = Some 2090188800000"
  by code_simp

lemma y2004: "new_Date (utc_platform noon) ''2004-12-21'' = Some 1103587200000"
  by code_simp

lemma n38000: "digits_number ''38000'' = Some 38000"
  by code_simp

lemma n26000: "digits_number ''26000'' = Some 26000"
  by code_simp

lemma now_noon: "now (utc_platform noon) = 1717243200000"
  by (simp add: utc_fields noon_def)

lemma apophis_future:
  "futureApproaches (utc_platform noon) apophis =
     [\<lparr>close_approach_date = ''2029-04-13'', miss_distance_kilometers = ''38000'',
       kilometers_per_hour = ''26000''\<rparr>,
      \<lparr>close_approach_date = ''2036-03-27'', miss_distance_kilometers = ''46000000'',
       kilometers_per_hour = ''20000''\<rparr>]"
  by (simp add: futureApproaches_def apophis_def in_future_def approach_time_def sort_time_def
        y2029 y2036 y2004 now_noon)

lemma apophis_run:
  "fst (neows_object (utc_platform noon) apophis_upstream (JStr ''2099942'') fresh_service)
     = Success
         \<lparr>neo_data = apophis,
          analysed =
            \<lparr>risk_level = ''HIGH'', size_category = ''LARGE'',
             next_approach =
               Some \<lparr>date_of = ''2029-04-13'', distance_km = Some 38000,
                     velocity_kmh = Some 26000\<rparr>,
             approach_count = 3\<rparr>\<rparr>
         [(''endpoint'', JStr ''neows/object/2099942''), (''asteroid_id'', JStr ''2099942''),
          (''cached'', JBool True), (''timestamp'', JStr ''2024-06-01T12:00:00.000Z'')]"
proof -
  have an: "analyse (utc_platform noon) apophis =
            \<lparr>risk_level = ''HIGH'', size_category = ''LARGE'',
             next_approach =
               Some \<lparr>date_of = ''2029-04-13'', distance_km = Some 38000,
                     velocity_kmh = Some 26000\<rparr>,
             approach_count = 3\<rparr>"
    unfolding analyse_def apophis_future
    by (simp add: apophis_def categorizeSize_def utc_fields n38000 n26000)
  show ?thesis
    by (simp add: neows_object_def getNearEarthObjectById_def makeRequest_def cache_get_def
          fresh_service_def empty_cache_def fetch_upstream_def apophis_upstream_def an
          noon_stamp utc_fields Let_def)
qed

theorem neows_object_analysis_witness:
  "fst (neows_object (utc_platform noon) apophis_upstream (JStr ''2099942'') fresh_service)
     = Success
         \<lparr>neo_data = apophis,
          analysed =
            \<lparr>risk_level = ''HIGH'', size_category = ''LARGE'',
             next_approach =
               Some \<lparr>date_of = ''2029-04-13'', distance_km = Some 38000,
                     velocity_kmh = Some 26000\<rparr>,
             approach_count = 3\<rparr>\<rparr>
         [(''endpoint'', JStr ''neows/object/2099942''), (''asteroid_id'', JStr ''2099942''),
          (''cached'', JBool True), (''timestamp'', JStr ''2024-06-01T12:00:00.000Z'')]
   \<and> is_potentially_hazardous_asteroid apophis
   \<and> 0.1 \<le> estimated_diameter_max apophis \<and> estimated_diameter_max apophis < 1"
proof -
  have facts: "is_potentially_hazardous_asteroid apophis
     \<and> 0.1 \<le> estimated_diameter_max apophis \<and> estimated_diameter_max apophis < 1"
    by (simp add: apophis_def)
  show ?thesis
    using apophis_run facts neows_object_analysis [OF apophis_run]
    by simp
qed

section \<open>Further properties of the validators and the proxy\<close>

lemma validateDate_regex: "validateDate p (JStr s) \<Longrightarrow> dateRegex s"
  by (auto simp: validateDate_def split: if_splits)


lemma validateDate_midnight:
  assumes "validateDate p (JStr s)"
  shows "\<exists>k. new_Date p s = Some (msPerDay * k)"
proof -
  have re: "dateRegex s"
    using assms by (rule validateDate_regex)
  have "getFullYear p (new_Date p s) \<noteq> None"
    using assms re by (auto simp: validateDate_def Let_def split: if_splits prod.splits)
  then have some: "new_Date p s \<noteq> None"
    by (auto simp: getFullYear_def)
  obtain y m d where ymd: "split_numbers s = (y, m, d)"
    by (cases "split_numbers s")
  show ?thesis
    using re some ymd by (cases "1 \<le> m \<and> m \<le> 12 \<and> 1 \<le> d \<and> d \<le> 31") (simp_all add: new_Date_def)
qed

lemma days_between_midnights:
  "days_between (Some (msPerDay * j)) (Some (msPerDay * k)) = Some (k - j)"
proof -
  have "msPerDay * j - msPerDay * k = (j - k) * msPerDay"
    by (simp add: algebra_simps)
  then have "(msPerDay * j - msPerDay * k) div msPerDay = j - k"
    by (simp add: msPerDay_def)
  then show ?thesis by simp
qed

lemma date_gt_midnights:
  "date_gt (Some (msPerDay * j)) (Some (msPerDay * k)) = (j > k)"
  by (simp add: msPerDay_def)

text \<open>
  The rule of \<open>validateDateRange\<close> on two dates that \<open>validateDate\<close> accepts: they are
  the midnights of two days \<open>j\<close> and \<open>k\<close>; the range is refused when \<open>j > k\<close> and when
  \<open>k - j > maxDays\<close>, and is otherwise valid with \<open>days = k - j + 1\<close>.
\<close>

theorem validateDateRange_rule:
  assumes "validateDate p (JStr s)" and "validateDate p (JStr e)"
  shows "\<exists>j k. new_Date p s = Some (msPerDay * j) \<and> new_Date p e = Some (msPerDay * k)
           \<and> validateDateRange p (JStr s) (JStr e) maxDays =
               (if j > k then Range_invalid ''Start date must be before or equal to end date''
                else if k - j > maxDays
                then Range_invalid (''Date range cannot exceed '' @ show_int maxDays @ '' days'')
                else Range_valid (Some (k - j + 1)))"
proof -
  obtain j where j: "new_Date p s = Some (msPerDay * j)"
    using validateDate_midnight [OF assms(1)] by blast
  obtain k where k: "new_Date p e = Some (msPerDay * k)"
    using validateDate_midnight [OF assms(2)] by blast
  have gt: "date_gt (new_Date p s) (new_Date p e) = (j > k)"
    unfolding j k by (rule date_gt_midnights)
  have db: "days_between (new_Date p s) (new_Date p e) = Some (k - j)"
    unfolding j k by (rule days_between_midnights)
  have "validateDateRange p (JStr s) (JStr e) maxDays =
               (if j > k then Range_invalid ''Start date must be before or equal to end date''
                else if k - j > maxDays
                then Range_invalid (''Date range cannot exceed '' @ show_int maxDays @ '' days'')
                else Range_valid (Some (k - j + 1)))"
    using assms by (simp add: validateDateRange_def Let_def gt db)
  then show ?thesis
    using j k by blast
qed

theorem validateDateRange_rule_witness:
  "validateDate (utc_platform noon) (JStr ''2024-01-01'')
   \<and> validateDate (utc_platform noon) (JStr ''2024-01-08'')
   \<and> validateDateRange (utc_platform noon) (JStr ''2024-01-01'') (JStr ''2024-01-08'') 7
       = Range_valid (Some 8)"
proof -
  obtain j k where
    j: "new_Date (utc_platform noon) ''2024-01-01'' = Some (msPerDay * j)" and
    k: "new_Date (utc_platform noon) ''2024-01-08'' = Some (msPerDay * k)" and
    r: "validateDateRange (utc_platform noon) (JStr ''2024-01-01'') (JStr ''2024-01-08'') 7 =
               (if j > k then Range_invalid ''Start date must be before or equal to end date''
                else if k - j > 7
                then Range_invalid (''Date range cannot exceed '' @ show_int 7 @ '' days'')
                else Range_valid (Some (k - j + 1)))"
    using validateDateRange_rule [OF jan01 jan08, of 7] by blast
  have "86400000 * j = (1704067200000::int)" and "86400000 * k = (1704672000000::int)"
    using j k by (simp_all add: jan01_ms jan08_ms msPerDay_def)
  then have "j = 19723" and "k = 19730"
    by simp_all
  then show ?thesis
    using r jan01 jan08 by simp
qed

lemma validateDate_string: "validateDate p v \<Longrightarrow> \<exists>s. v = JStr s \<and> dateRegex s"
  by (cases v) (auto simp: validateDate_def split: if_splits)

text \<open>
  \<open>validateDate\<close> returns a boolean on every value and accepts only strings of ten
  characters.
\<close>

theorem validateDate_accepts_only_date_strings:
  "validateDate p v = (\<exists>s. v = JStr s \<and> validateDate p (JStr s) \<and> length s = 10)"
proof
  assume "validateDate p v"
  then show "\<exists>s. v = JStr s \<and> validateDate p (JStr s) \<and> length s = 10"
    using validateDate_string [of p v] by (auto simp: dateRegex_def)
next
  assume "\<exists>s. v = JStr s \<and> validateDate p (JStr s) \<and> length s = 10"
  then show "validateDate p v" by blast
qed

lemma str_includes_suffix: "suffix d s \<Longrightarrow> str_includes s d"
proof (induction s)
  case Nil
  then show ?case by simp
next
  case (Cons c cs)
  then show ?case
    by (auto simp: suffix_Cons)
qed

text \<open>
  The proxy admits every host name that is an allowed domain or ends with one: it
  refuses a request with 403 only if the host name fails the exact and the suffix
  match.
\<close>

theorem matching_hosts_are_allowed:
  assumes "exact_or_suffix_match hostname"
  shows "isAllowedDomain hostname"
proof -
  obtain domain where d: "domain \<in> set allowedDomains"
      and m: "hostname = domain \<or> suffix domain hostname"
    using assms by (auto simp: exact_or_suffix_match_def list_ex_iff)
  have "suffix domain hostname"
    using m by auto
  then have "str_includes hostname domain"
    by (rule str_includes_suffix)
  then show ?thesis
    using d by (auto simp: isAllowedDomain_def list_ex_iff)
qed

theorem matching_hosts_are_allowed_witness:
  "exact_or_suffix_match ''images.apod.nasa.gov'' \<and> isAllowedDomain ''images.apod.nasa.gov''"
proof -
  have m: "exact_or_suffix_match ''images.apod.nasa.gov''"
    by code_simp
  show ?thesis
    using m matching_hosts_are_allowed [OF m] by simp
qed

end
